theory Spec2Isabelle
  imports Main "HOL-Library.Word"
begin

section \<open>Strings, paths and the small library functions XCLBinGen.cpp relies on\<close>

text \<open>
  The model follows \<^verbatim>\<open>iree-amd-aie/Target/XCLBinGen.cpp\<close> on a POSIX host (the
  branches outside \<^verbatim>\<open>_WIN32\<close>). A \<^verbatim>\<open>std::string\<close> is a \<open>string\<close>, a
  \<^verbatim>\<open>std::filesystem::path\<close> is the string it holds.
\<close>

type_synonym path = string

text \<open>\<^verbatim>\<open>std::isspace\<close> in the classic locale: what \<^verbatim>\<open>operator>>\<close> skips.\<close>

definition isspace :: "char \<Rightarrow> bool" where
  "isspace c = (c = CHR '' '' \<or> c = CHR 0x09 \<or> c = CHR 0x0A \<or> c = CHR 0x0B
                \<or> c = CHR 0x0C \<or> c = CHR 0x0D)"

text \<open>
  \<^verbatim>\<open>std::istream_iterator<std::string>\<close> over a string stream: the maximal runs of
  characters that are not white space, in order. \<open>cur\<close> is the token being read.
\<close>

fun splitTokens :: "string \<Rightarrow> string \<Rightarrow> string list" where
  "splitTokens cur [] = (if cur = [] then [] else [cur])"
| "splitTokens cur (c # cs) =
     (if isspace c then (if cur = [] then splitTokens [] cs else cur # splitTokens [] cs)
      else splitTokens (cur @ [c]) cs)"

definition istream_tokens :: "string \<Rightarrow> string list" where
  "istream_tokens s = splitTokens [] s"

text \<open>\<^verbatim>\<open>std::find_if\<close>: the index of the first element satisfying the predicate.\<close>

fun find_if :: "('a \<Rightarrow> bool) \<Rightarrow> 'a list \<Rightarrow> nat option" where
  "find_if p [] = None"
| "find_if p (x # xs) = (if p x then Some 0 else map_option Suc (find_if p xs))"

text \<open>Decimal and upper-case hexadecimal digits of a natural number, most significant first.\<close>

fun decDigits :: "nat \<Rightarrow> string" where
  "decDigits n = (if n < 10 then [''0123456789'' ! n]
                  else decDigits (n div 10) @ [''0123456789'' ! (n mod 10)])"

fun hexDigits :: "nat \<Rightarrow> string" where
  "hexDigits n = (if n < 16 then [''0123456789ABCDEF'' ! n]
                  else hexDigits (n div 16) @ [''0123456789ABCDEF'' ! (n mod 16)])"

declare decDigits.simps [simp del] hexDigits.simps [simp del]

text \<open>\<^verbatim>\<open>std::to_string(int)\<close>.\<close>

definition to_string :: "int \<Rightarrow> string" where
  "to_string n = (if n < 0 then CHR ''-'' # decDigits (nat (- n)) else decDigits (nat n))"

text \<open>\<^verbatim>\<open>llvm::format("%08X", w)\<close> for a \<^verbatim>\<open>uint32_t\<close>: zero padding up to width eight.\<close>

definition format08X :: "32 word \<Rightarrow> string" where
  "format08X w = (let h = hexDigits (unat w) in replicate (8 - length h) CHR ''0'' @ h)"

text \<open>
  Reading a hexadecimal numeral back: the value of a digit is its place among the sixteen
  upper-case digits. Used only to state what \<open>format08X\<close> prints.
\<close>

definition hexDigitValue :: "char \<Rightarrow> nat" where
  "hexDigitValue c = (case find_if (\<lambda>d. d = c) ''0123456789ABCDEF'' of Some i \<Rightarrow> i | None \<Rightarrow> 0)"

definition hexValue :: "string \<Rightarrow> nat" where
  "hexValue s = foldl (\<lambda>a c. 16 * a + hexDigitValue c) 0 s"

text \<open>\<^verbatim>\<open>StringRef::lower\<close>: ASCII letters only.\<close>

definition toLower :: "char \<Rightarrow> char" where
  "toLower c = (let n = (of_char c :: nat) in if 65 \<le> n \<and> n \<le> 90 then char_of (n + 32) else c)"

definition lower :: "string \<Rightarrow> string" where
  "lower s = map toLower s"

text \<open>
  \<^verbatim>\<open>std::filesystem::path::operator/\<close> on POSIX: an absolute right operand replaces the
  left one; otherwise a separator is added unless the left operand is empty or ends in one.
\<close>

definition is_absolute :: "path \<Rightarrow> bool" where
  "is_absolute p = (case p of [] \<Rightarrow> False | c # _ \<Rightarrow> c = CHR ''/'')"

definition path_append :: "path \<Rightarrow> path \<Rightarrow> path" where
  "path_append p q =
     (if is_absolute q then q
      else if p = [] then q
      else if last p = CHR ''/'' then p @ q
      else p @ ''/'' @ q)"

definition pjoin :: "path \<Rightarrow> path list \<Rightarrow> path" where
  "pjoin p qs = foldl path_append p qs"

section \<open>Failures\<close>

text \<open>
  The source returns \<^verbatim>\<open>failure()\<close> after printing a diagnostic; the model returns the
  diagnostic as a value. \<open>fault\<close> lists the places where the source does not return at
  all: it dereferences a failed or empty result, builds a string from a null pointer,
  reads an array out of range, calls \<^verbatim>\<open>report_fatal_error\<close>, lets an exception of
  \<^verbatim>\<open>std::filesystem\<close> escape (nothing in the file catches one) or increments an
  \<^verbatim>\<open>int\<close> beyond its largest value.
\<close>

datatype fault =
    DerefFailure
  | NullCString
  | FatalError
  | BadOptionalAccess
  | IndexOutOfBounds
  | NullPointer
  | UncaughtException
  | SignedOverflow

datatype error =
    MalformedFlagString
  | UnsupportedNPUVersion string
  | ToolchainNotFound
  | LicenseNotSet
  | LicenseFileMissing path
  | ToolchainIncomplete string
  | ToolNotFound string
  | ProgramNotFound path
  | TempFileFailed
  | ToolFailed path string string
  | OpenFailed path
  | TranslateFailed string
  | LoweringFailed
  | TranslationFailed
  | ControlPacketsFailed
  | CdoGenerationFailed
  | BootImageFailed
  | CopyFailed
  | MissingInstructions
  | WrongInstructionsType
  | Fault fault

section \<open>OptFlagComposer: \<^verbatim>\<open>detail::makePeanoOptArgs\<close>\<close>

definition defaultPeanoOptArgs :: "string \<Rightarrow> string \<Rightarrow> string list" where
  "defaultPeanoOptArgs filenameIrIn filenameIrOut =
     [''-vectorize-loops=false'',
      ''-vectorize-slp=false'',
      ''--two-entry-phi-node-folding-threshold=10'',
      ''-mandatory-inlining-before-opt=false'',
      ''-basic-aa-full-phi-analysis=true'',
      ''-basic-aa-max-lookup-search-depth=10'',
      ''-O3'',
      ''--inline-threshold=10'',
      ''--disable-builtin=memset'',
      ''-S'', filenameIrIn,
      ''-o'', filenameIrOut]"

definition isOptLevelFlag :: "string \<Rightarrow> bool" where
  "isOptLevelFlag flag = (length flag = 3 \<and> flag ! 0 = CHR ''-'' \<and> flag ! 1 = CHR ''O'')"

definition isContention :: "string \<Rightarrow> string \<Rightarrow> bool" where
  "isContention a b = (if isOptLevelFlag a \<and> isOptLevelFlag b then True else False)"

text \<open>One round of the loop over \<^verbatim>\<open>additionalFlags\<close>: replace the first flag in contention, or append.\<close>

definition addFlag :: "string list \<Rightarrow> string \<Rightarrow> string list" where
  "addFlag args flag =
     (case find_if (\<lambda>a. isContention a flag) args of
        None \<Rightarrow> args @ [flag]
      | Some i \<Rightarrow> args[i := flag])"

definition makePeanoOptArgs :: "string \<Rightarrow> string \<Rightarrow> string \<Rightarrow> error + string list" where
  "makePeanoOptArgs filenameIrIn filenameIrOut additionalPeanoOptFlags =
     (let args = defaultPeanoOptArgs filenameIrIn filenameIrOut in
      if additionalPeanoOptFlags = [] then Inr args
      else if length additionalPeanoOptFlags < 2
              \<or> hd additionalPeanoOptFlags \<noteq> CHR 0x22
              \<or> last additionalPeanoOptFlags \<noteq> CHR 0x22
      then Inl MalformedFlagString
      else
        let stripped = take (length additionalPeanoOptFlags - 2) (drop 1 additionalPeanoOptFlags);
            additionalFlags = istream_tokens stripped
        in Inr (foldl addFlag args additionalFlags))"

text \<open>The additional-flag string \<^verbatim>\<open>"..."\<close>: the text between two literal quote characters.\<close>

definition quoted :: "string \<Rightarrow> string" where
  "quoted s = CHR 0x22 # s @ [CHR 0x22]"


section \<open>The device module, JSON values and the file system\<close>

text \<open>
  What the pipeline reads of an \<^verbatim>\<open>AIE::DeviceOp\<close>: its tile operations in order (column,
  row, the core operation of the tile if it has one, and that core's \<^verbatim>\<open>elf_file\<close>
  attribute if it is set) and its \<^verbatim>\<open>npu_instructions\<close> attribute.
\<close>

record CoreOp =
  getElfFileAttr :: "string option"

record TileOp =
  getCol :: int
  getRow :: int
  getCoreOp :: "CoreOp option"

text \<open>
  The \<^verbatim>\<open>npu_instructions\<close> attribute: of another type than
  \<^verbatim>\<open>DenseUI32ResourceElementsAttr\<close>, or of that type, with what
  \<^verbatim>\<open>tryGetAsArrayRef\<close> returns.
\<close>

datatype Attribute =
    OtherAttr
  | DenseUI32ResourceElementsAttr "32 word list option"

record DeviceOp =
  getTileOps :: "TileOp list"
  getNpuInstructions :: "Attribute option"

datatype json =
    Null
  | Boolean bool
  | Number int
  | String string
  | Array "json list"
  | Object "(string \<times> json) list"

text \<open>
  What the file system answers for a path: nothing is there (\<open>None\<close>), a directory, a
  regular file with its content, or the status of the path cannot be determined (its name
  is too long, it runs into a loop of symbolic links, a directory on the way may not be
  searched).
\<close>

datatype entry = Directory | Regular string | StatusError

type_synonym fs = "path \<Rightarrow> entry option"

text \<open>
  \<^verbatim>\<open>std::filesystem::exists(p)\<close>, the overload without an \<^verbatim>\<open>error_code\<close>: it
  answers yes or no, or throws \<^verbatim>\<open>filesystem_error\<close> (\<open>None\<close>) when the status of
  the path cannot be determined.
\<close>

definition fs_exists :: "fs \<Rightarrow> path \<Rightarrow> bool option" where
  "fs_exists f p =
     (case f p of
        None \<Rightarrow> Some False
      | Some StatusError \<Rightarrow> None
      | Some e \<Rightarrow> Some True)"

datatype lowering = PassesFailed | NoLLVMModule | LLVMIR string

text \<open>
  Everything outside XCLBinGen.cpp that the pipeline calls: the process environment, LLVM's
  and MLIR's library functions, the translators of the device module, the external
  processes, the three source files included as string constants, and the numbers drawn
  from the random generator (\<open>dis w i\<close> is the \<open>i\<close>-th number drawn from
  \<^verbatim>\<open>dis\<close> while one UUID is built, \<open>dis2 w\<close> the one drawn from \<^verbatim>\<open>dis2\<close>).
  The pipeline is a function of these; nothing is assumed about them.
\<close>

record world =
  getenv :: "string \<Rightarrow> string option"
  findProgramByName :: "string \<Rightarrow> path option"
  real_path :: "path \<Rightarrow> path option"
  remove_filename :: "path \<Rightarrow> path"
  current_path :: path
  findTool :: "string \<Rightarrow> path"
  openOutputFile :: "fs \<Rightarrow> path \<Rightarrow> bool"
  createTemporaryFile :: "fs \<Rightarrow> path option"
  ExecuteAndWait :: "path \<Rightarrow> string list \<Rightarrow> string list \<Rightarrow> path \<Rightarrow> fs \<Rightarrow> int \<times> string \<times> fs"
  bootgen_main :: "string list \<Rightarrow> fs \<Rightarrow> int \<times> fs"
  copy_file :: "path \<Rightarrow> path \<Rightarrow> fs \<Rightarrow> fs option"
  dis :: "nat \<Rightarrow> nat"
  dis2 :: nat
  json_parse :: "string \<Rightarrow> json option"
  json_format :: "json \<Rightarrow> string"
  coreToLLVMIR :: "bool \<Rightarrow> DeviceOp \<Rightarrow> lowering"
  AIETranslateToBCF :: "DeviceOp \<Rightarrow> int \<Rightarrow> int \<Rightarrow> string option"
  AIETranslateToLdScript :: "DeviceOp \<Rightarrow> int \<Rightarrow> int \<Rightarrow> string option"
  AIETranslateToCDODirect :: "DeviceOp \<Rightarrow> path \<Rightarrow> fs \<Rightarrow> bool \<times> fs"
  convertDeviceToControlPackets :: "path \<Rightarrow> DeviceOp \<Rightarrow> bool \<times> DeviceOp"
  mm_npu1_cc :: string
  mm_npu4_cc :: string
  chess_intrinsic_wrapper_cpp :: string

text \<open>
  A run of an external program, as \<^verbatim>\<open>runTool\<close> hands it to
  \<^verbatim>\<open>sys::ExecuteAndWait\<close>: program, arguments, environment.
\<close>

datatype event = Exec path "string list" "string list"

text \<open>
  The state the pipeline changes: the files on disk, the device module (its
  \<^verbatim>\<open>elf_file\<close> attributes are set in place) and the external programs run so far.
\<close>

record state =
  fsys :: fs
  deviceOp :: DeviceOp
  trace :: "event list"

type_synonym 'a action = "state \<Rightarrow> (error + 'a) \<times> state"

definition ret :: "'a \<Rightarrow> 'a action" where
  "ret x s = (Inr x, s)"

definition fail :: "error \<Rightarrow> 'a action" where
  "fail e s = (Inl e, s)"

text \<open>Sequencing: a failure ends the function, with the state as it is then.\<close>

definition andThen :: "'a action \<Rightarrow> ('a \<Rightarrow> 'b action) \<Rightarrow> 'b action" where
  "andThen m f s = (case m s of (Inl e, s') \<Rightarrow> (Inl e, s') | (Inr x, s') \<Rightarrow> f x s')"

text \<open>A \<^verbatim>\<open>for\<close> loop over a range, with the local variable \<open>v\<close> it updates.\<close>

fun forEach :: "('v \<Rightarrow> 'a \<Rightarrow> 'v action) \<Rightarrow> 'v \<Rightarrow> 'a list \<Rightarrow> 'v action" where
  "forEach body v [] s = (Inr v, s)"
| "forEach body v (x # xs) s =
     (case body v x s of (Inl e, s') \<Rightarrow> (Inl e, s') | (Inr v', s') \<Rightarrow> forEach body v' xs s')"

section \<open>ToolchainLocator\<close>

definition getTargetDir :: "string \<Rightarrow> string option" where
  "getTargetDir npuVersion =
     (if npuVersion = ''npu1'' then Some ''target_aie_ml''
      else if npuVersion = ''npu4'' then Some ''target_aie2p''
      else None)"

text \<open>
  The first block of \<^verbatim>\<open>findVitis\<close>: \<open>vitisDir\<close> is passed by reference and assigned
  only in the innermost branch. When \<^verbatim>\<open>VITIS\<close> is set the block assigns nothing.
\<close>

definition locateVitisDir :: "world \<Rightarrow> path option \<Rightarrow> path option" where
  "locateVitisDir w vitisDir =
     (case vitisDir of
        Some d \<Rightarrow> Some d
      | None \<Rightarrow>
          (case getenv w ''VITIS'' of
             Some envVitis \<Rightarrow> None
           | None \<Rightarrow>
               (case findProgramByName w ''v++'' of
                  None \<Rightarrow> None
                | Some vpp \<Rightarrow>
                    (case real_path w vpp of
                       None \<Rightarrow> None
                     | Some realVpp \<Rightarrow> Some (remove_filename w (remove_filename w realVpp))))))"

text \<open>
  The license block of \<^verbatim>\<open>findVitis\<close>: \<open>None\<close> when it falls through. The existence
  check is made only for a file named by \<^verbatim>\<open>LM_LICENSE_FILE\<close>.
\<close>

definition checkLicense :: "world \<Rightarrow> fs \<Rightarrow> error option" where
  "checkLicense w f =
     (case getenv w ''XILINXD_LICENSE_FILE'' of
        Some licenseFile \<Rightarrow> None
      | None \<Rightarrow>
          (case getenv w ''LM_LICENSE_FILE'' of
             None \<Rightarrow> Some LicenseNotSet
           | Some licenseFile \<Rightarrow>
               (case fs_exists f licenseFile of
                  None \<Rightarrow> Some (Fault UncaughtException)
                | Some found \<Rightarrow>
                    if \<not> found then Some (LicenseFileMissing licenseFile)
                    else None)))"

text \<open>
  \<^verbatim>\<open>findVitis\<close> returns its result and the value it leaves in \<open>vitisDir\<close>.
  \<^verbatim>\<open>*getTargetDir(npuVersion)\<close> dereferences the result unchecked.
\<close>

definition findVitis :: "world \<Rightarrow> fs \<Rightarrow> path option \<Rightarrow> string \<Rightarrow> (error + path) \<times> path option" where
  "findVitis w f vitisDir npuVersion =
     (case locateVitisDir w vitisDir of
        None \<Rightarrow> (Inl ToolchainNotFound, None)
      | Some dir \<Rightarrow>
          (case checkLicense w f of
             Some e \<Rightarrow> (Inl e, Some dir)
           | None \<Rightarrow>
               let aieToolsPath = path_append dir ''aietools'' in
               (case fs_exists f aieToolsPath of
                  None \<Rightarrow> (Inl (Fault UncaughtException), Some dir)
                | Some foundTools \<Rightarrow>
                    if \<not> foundTools then (Inl (ToolchainIncomplete ''aietools''), Some dir)
                    else
                      (case getTargetDir npuVersion of
                         None \<Rightarrow> (Inl (Fault DerefFailure), Some dir)
                       | Some targetDir \<Rightarrow>
                           let chessccPath =
                                 pjoin aieToolsPath
                                   [''tps'', ''lnx64'', targetDir, ''bin'', ''LNa64bin''] in
                           (case fs_exists f (path_append chessccPath ''chess-clang'') of
                              None \<Rightarrow> (Inl (Fault UncaughtException), Some dir)
                            | Some foundClang \<Rightarrow>
                                if \<not> foundClang
                                then (Inl (ToolchainIncomplete ''chess-clang''), Some dir)
                                else
                                  (case fs_exists f (path_append chessccPath ''chess-llvm-link'') of
                                     None \<Rightarrow> (Inl (Fault UncaughtException), Some dir)
                                   | Some foundLink \<Rightarrow>
                                       if \<not> foundLink
                                       then (Inl (ToolchainIncomplete ''chess-llvm-link''), Some dir)
                                       else (Inr dir, Some dir)))))))"

text \<open>
  The candidates of \<^verbatim>\<open>findAMDAIETool\<close> are tried in order: the first that exists is
  returned, and a check that throws ends the search.
\<close>

fun firstExisting :: "fs \<Rightarrow> path list \<Rightarrow> error + path option" where
  "firstExisting f [] = Inr None"
| "firstExisting f (toolBinExe # rest) =
     (case fs_exists f toolBinExe of
        None \<Rightarrow> Inl (Fault UncaughtException)
      | Some found \<Rightarrow> if found then Inr (Some toolBinExe) else firstExisting f rest)"

definition findAMDAIETool :: "world \<Rightarrow> fs \<Rightarrow> string \<Rightarrow> path \<Rightarrow> error + path" where
  "findAMDAIETool w f toolName amdAIEInstallDir =
     (case firstExisting f
             ((if amdAIEInstallDir \<noteq> []
               then [path_append amdAIEInstallDir toolName,
                     pjoin amdAIEInstallDir [''bin'', toolName],
                     pjoin amdAIEInstallDir [''tools'', toolName]]
               else [])
              @ [findTool w toolName]) of
        Inl e \<Rightarrow> Inl e
      | Inr (Some toolBinExe) \<Rightarrow> Inr toolBinExe
      | Inr None \<Rightarrow> Inl (ToolNotFound toolName))"


text \<open>\<^verbatim>\<open>makeChessArgs\<close>: the path of \<^verbatim>\<open>xchesscc\<close> and its flags.\<close>

definition makeChessArgs :: "path \<Rightarrow> path \<Rightarrow> string \<Rightarrow> bool \<Rightarrow> error + (string \<times> string list)" where
  "makeChessArgs vitisDir tempDir npuVersion verbose =
     (case (if npuVersion = ''npu1'' then Some (''20'', ''aie_ml'')
            else if npuVersion = ''npu4'' then Some (''21'', ''aie2p'')
            else None) of
        None \<Rightarrow> Inl (Fault FatalError)
      | Some (archVersion, modelDir) \<Rightarrow>
          let aieToolsDir = path_append vitisDir ''aietools'';
              flags = [''-j1'', ''-pme'',
                       ''-P'' @ pjoin aieToolsDir [''data'', modelDir, ''lib''],
                       ''-f'', ''-CRelease_LLVM'',
                       ''+w'' @ tempDir,
                       ''-D__AIENGINE__'',
                       ''-D__AIE_ARCH__='' @ archVersion, ''-D__AIEARCH__='' @ archVersion,
                       ''-I'' @ path_append aieToolsDir ''include'']
          in Inr (pjoin aieToolsDir [''bin'', ''unwrapped'', ''lnx64.o'', ''xchesscc''],
                  if verbose then flags @ [''-d''] else flags))"

text \<open>
  \<^verbatim>\<open>makeChessEnv\<close>. It dereferences \<^verbatim>\<open>getTargetDir\<close> unchecked, builds a path from
  \<^verbatim>\<open>getenv("PATH")\<close> and a string from the license variable without a null check.
\<close>

definition makeChessEnv :: "world \<Rightarrow> path \<Rightarrow> string \<Rightarrow> error + string list" where
  "makeChessEnv w vitisDir npuVersion =
     (let aieToolsPath = path_append vitisDir ''aietools'' in
      case getTargetDir npuVersion of
        None \<Rightarrow> Inl (Fault DerefFailure)
      | Some targetDir \<Rightarrow>
          let chessccPath = pjoin aieToolsPath [''tps'', ''lnx64'', targetDir, ''bin'', ''LNa64bin''] in
          (case getenv w ''PATH'' of
             None \<Rightarrow> Inl (Fault NullCString)
           | Some path \<Rightarrow>
               let lnx64o = pjoin aieToolsPath [''lib'', ''lnx64.o''];
                   dotLib = pjoin aieToolsPath [''lnx64'', ''tools'', ''dot'', ''lib''];
                   ldLibraryPath = (case getenv w ''LD_LIBRARY_PATH'' of
                                      Some ldLibraryPath_ \<Rightarrow> ldLibraryPath_ | None \<Rightarrow> []);
                   pathEnv = ''PATH='' @ chessccPath @ '':'' @ path;
                   ldLibEnv = ''LD_LIBRARY_PATH='' @ lnx64o @ '':'' @ dotLib @ '':'' @ ldLibraryPath;
                   rdiDataEnv = ''RDI_DATADIR='' @ path_append aieToolsPath ''data''
               in (case (case getenv w ''XILINXD_LICENSE_FILE'' of
                           Some l \<Rightarrow> Some l
                         | None \<Rightarrow> getenv w ''LM_LICENSE_FILE'') of
                     None \<Rightarrow> Inl (Fault NullCString)
                   | Some licenseFile \<Rightarrow>
                       Inr [pathEnv, ldLibEnv, rdiDataEnv,
                            ''XILINXD_LICENSE_FILE='' @ licenseFile])))"

section \<open>ProcessRunner and ObjectAssembler\<close>

definition dumpStrToDisk :: "world \<Rightarrow> string \<Rightarrow> path \<Rightarrow> unit action" where
  "dumpStrToDisk w payload outputPath s =
     (if openOutputFile w (fsys s) outputPath
      then (Inr (), s\<lparr>fsys := (fsys s)(outputPath \<mapsto> Regular payload)\<rparr>)
      else (Inl (OpenFailed outputPath), s))"

text \<open>
  \<^verbatim>\<open>runTool\<close>. The existence check of the program is the throwing one. The program's
  output goes to a temporary file, which is read back after the run. When that file cannot
  be opened the function builds a
  \<^verbatim>\<open>std::optional<std::string>\<close> from \<^verbatim>\<open>nullptr\<close> and takes its
  \<^verbatim>\<open>value()\<close>: it does not return. Without an \<open>env\<close> the program runs in an empty
  environment. \<open>verbose\<close> only adds output on the terminal.
\<close>

definition runTool :: "world \<Rightarrow> path \<Rightarrow> string list \<Rightarrow> bool \<Rightarrow> string list option \<Rightarrow> unit action" where
  "runTool w program args verbose env s =
     (case fs_exists (fsys s) program of
        None \<Rightarrow> (Inl (Fault UncaughtException), s)
      | Some found \<Rightarrow>
          if \<not> found then (Inl (ProgramNotFound program), s)
          else
            (case createTemporaryFile w (fsys s) of
               None \<Rightarrow> (Inl TempFileFailed, s)
             | Some temporaryPath \<Rightarrow>
                 let envSmallVec = (case env of None \<Rightarrow> [] | Some e \<Rightarrow> e);
                     (result, errMsg, f') =
                        ExecuteAndWait w program (program # args) envSmallVec temporaryPath
                          ((fsys s)(temporaryPath \<mapsto> Regular []));
                     s' = s\<lparr>fsys := f', trace := trace s @ [Exec program args envSmallVec]\<rparr>
                 in (case f' temporaryPath of
                       Some (Regular outputFromFile) \<Rightarrow>
                         if result \<noteq> 0 then (Inl (ToolFailed program errMsg outputFromFile), s')
                         else (Inr (), s')
                     | _ \<Rightarrow> (Inl (Fault NullCString), s'))))"

definition assembleFileUsingChess ::
  "world \<Rightarrow> string \<Rightarrow> string \<Rightarrow> string list \<Rightarrow> path \<Rightarrow> path \<Rightarrow> string \<Rightarrow> bool \<Rightarrow> unit action" where
  "assembleFileUsingChess w inputFile outputFile extraArgs tempDir vitisDir npuVersion verbose =
     (case makeChessArgs vitisDir tempDir npuVersion verbose of
        Inl e \<Rightarrow> fail e
      | Inr (xChessCCExe, args) \<Rightarrow>
          (case makeChessEnv w vitisDir npuVersion of
             Inl e \<Rightarrow> fail e
           | Inr env \<Rightarrow>
               runTool w xChessCCExe
                 (args @ extraArgs @ [''-c'', inputFile, ''-o'', outputFile]) verbose (Some env)))"

definition assembleStringUsing ::
  "(string \<Rightarrow> string \<Rightarrow> string list \<Rightarrow> path \<Rightarrow> path \<Rightarrow> string \<Rightarrow> bool \<Rightarrow> unit action) \<Rightarrow>
   world \<Rightarrow> string \<Rightarrow> string \<Rightarrow> string \<Rightarrow> path \<Rightarrow> string list \<Rightarrow> path \<Rightarrow> path \<Rightarrow> string \<Rightarrow> bool
     \<Rightarrow> path action" where
  "assembleStringUsing assembler w inputFileStr inputFileName outputFileName outputDir extraArgs
       workDir toolDir npuVersion verbose =
     (let inputFile = path_append workDir inputFileName in
      andThen (dumpStrToDisk w inputFileStr inputFile) (\<lambda>_.
        let outputFile = (if \<not> is_absolute outputFileName
                          then path_append outputDir outputFileName
                          else outputFileName)
        in andThen (assembler inputFile outputFile extraArgs workDir toolDir npuVersion verbose)
             (\<lambda>_. ret outputFile)))"

definition assembleStringUsingChess ::
  "world \<Rightarrow> string \<Rightarrow> string \<Rightarrow> string \<Rightarrow> path \<Rightarrow> string list \<Rightarrow> path \<Rightarrow> path \<Rightarrow> string \<Rightarrow> bool
     \<Rightarrow> path action" where
  "assembleStringUsingChess w = assembleStringUsing (assembleFileUsingChess w) w"


section \<open>CoreElfBuilder: \<^verbatim>\<open>generateCoreElfFiles\<close>\<close>

text \<open>\<^verbatim>\<open>ukernel && (ukernel == "mm" || ukernel == "all")\<close>\<close>

definition wantsUkernel :: "string option \<Rightarrow> bool" where
  "wantsUkernel ukernel = (case ukernel of None \<Rightarrow> False | Some u \<Rightarrow> u = ''mm'' \<or> u = ''all'')"

text \<open>\<^verbatim>\<open>coreOp.setElfFile\<close>: the core operation of tile \<open>i\<close> is replaced in the device module.\<close>

definition setCoreOp :: "nat \<Rightarrow> CoreOp \<Rightarrow> DeviceOp \<Rightarrow> DeviceOp" where
  "setCoreOp i coreOp d =
     d\<lparr>getTileOps := (getTileOps d)[i := (getTileOps d ! i)\<lparr>getCoreOp := Some coreOp\<rparr>]\<rparr>"

text \<open>The ELF file name of a core: its attribute if set; otherwise synthesised and stored.\<close>

definition chooseElfFileName :: "nat \<Rightarrow> TileOp \<Rightarrow> CoreOp \<Rightarrow> string action" where
  "chooseElfFileName i tileOp coreOp s =
     (case getElfFileAttr coreOp of
        Some fileAttr \<Rightarrow> (Inr fileAttr, s)
      | None \<Rightarrow>
          let elfFileName = ''core_'' @ to_string (getCol tileOp) @ ''_''
                              @ to_string (getRow tileOp) @ ''.elf''
          in (Inr elfFileName,
              s\<lparr>deviceOp := setCoreOp i (coreOp\<lparr>getElfFileAttr := Some elfFileName\<rparr>) (deviceOp s)\<rparr>))"

text \<open>
  The microkernel block of the loop body. It returns the path of the microkernel object
  and the value \<^verbatim>\<open>findVitis\<close> left in \<open>vitisDir\<close>.
\<close>

definition ukernelObject ::
  "world \<Rightarrow> path \<Rightarrow> bool \<Rightarrow> string \<Rightarrow> string \<times> string \<times> string \<Rightarrow> path option
     \<Rightarrow> (path \<times> path option) action" where
  "ukernelObject w tempDir verbose npuVersion uk vitisDir s =
     (case uk of (ukernelFileContent, ukernelFileName, ukernelObjectName) \<Rightarrow>
        let cwd = current_path w in
        (case findVitis w (fsys s) vitisDir npuVersion of
           (Inl e, vitisDir') \<Rightarrow> (Inl e, s)
         | (Inr maybeVitisDir, vitisDir') \<Rightarrow>
             (case fs_exists (fsys s) (path_append cwd ukernelObjectName) of
                None \<Rightarrow> (Inl (Fault UncaughtException), s)
              | Some found \<Rightarrow>
                  if \<not> found
                  then andThen (assembleStringUsingChess w ukernelFileContent ukernelFileName
                                  ukernelObjectName cwd [] tempDir maybeVitisDir npuVersion verbose)
                         (\<lambda>mmObjectFilePath. ret (mmObjectFilePath, vitisDir')) s
                  else (Inr (path_append cwd ukernelObjectName, vitisDir'), s))))"

text \<open>
  Opening an output file, writing a translation of the device module for one core into it
  and keeping it. A file that is not kept is removed.
\<close>

definition emitTranslation ::
  "world \<Rightarrow> path \<Rightarrow> (DeviceOp \<Rightarrow> int \<Rightarrow> int \<Rightarrow> string option) \<Rightarrow> int \<Rightarrow> int \<Rightarrow> string
     \<Rightarrow> unit action" where
  "emitTranslation w outPath translate col row what s =
     (if \<not> openOutputFile w (fsys s) outPath then (Inl (OpenFailed outPath), s)
      else
        (case translate (deviceOp s) col row of
           None \<Rightarrow> (Inl (TranslateFailed what), s\<lparr>fsys := (fsys s)(outPath := None)\<rparr>)
         | Some buf \<Rightarrow> (Inr (), s\<lparr>fsys := (fsys s)(outPath \<mapsto> Regular buf)\<rparr>)))"

text \<open>
  The \<^verbatim>\<open>useChess\<close> branch of the loop body. After a successful \<^verbatim>\<open>findVitis\<close>,
  \<^verbatim>\<open>*vitisDir\<close> is the directory it returned.
\<close>

definition linkCoreWithChess ::
  "world \<Rightarrow> string \<Rightarrow> path \<Rightarrow> bool \<Rightarrow> string \<Rightarrow> int \<Rightarrow> int \<Rightarrow> string \<Rightarrow> path option \<Rightarrow> path option
     \<Rightarrow> (path option) action" where
  "linkCoreWithChess w objFile tempDir verbose npuVersion col row elfFileName mmObjectFilePath
       vitisDir s =
     (let cwd = current_path w; elfFile = path_append tempDir elfFileName in
      case findVitis w (fsys s) vitisDir npuVersion of
        (Inl e, vitisDir') \<Rightarrow> (Inl e, s)
      | (Inr maybeVitisDir, vitisDir') \<Rightarrow>
          andThen
            (case fs_exists (fsys s) (path_append cwd ''chess_intrinsic_wrapper.o'') of
               None \<Rightarrow> fail (Fault UncaughtException)
             | Some found \<Rightarrow>
                 if \<not> found
                 then assembleStringUsingChess w (chess_intrinsic_wrapper_cpp w)
                        ''chess_intrinsic_wrapper.cpp'' ''chess_intrinsic_wrapper.o'' tempDir []
                        tempDir maybeVitisDir npuVersion verbose
                 else ret (path_append cwd ''chess_intrinsic_wrapper.o''))
            (\<lambda>chessIntrinsicsObjFile.
               let bcfPath = path_append tempDir (elfFileName @ ''.bcf'') in
               andThen (emitTranslation w bcfPath (AIETranslateToBCF w) col row ''BCF'')
                 (\<lambda>_. case makeChessArgs maybeVitisDir tempDir npuVersion verbose of
                         Inl e \<Rightarrow> fail e
                       | Inr (xChessCCExe, flags) \<Rightarrow>
                           let chessArgs = flags @ [objFile, chessIntrinsicsObjFile]
                                 @ (case mmObjectFilePath of None \<Rightarrow> [] | Some mm \<Rightarrow> [mm])
                                 @ [''+l'', bcfPath, ''-o'', elfFile]
                           in (case makeChessEnv w maybeVitisDir npuVersion of
                                 Inl e \<Rightarrow> fail e
                               | Inr env \<Rightarrow>
                                   andThen (runTool w xChessCCExe chessArgs verbose (Some env))
                                     (\<lambda>_. ret vitisDir')))) s)"

text \<open>The open-backend branch: a linker script, then \<^verbatim>\<open>clang\<close> as the linker driver.\<close>

definition linkCoreWithPeano ::
  "world \<Rightarrow> string \<Rightarrow> path \<Rightarrow> string \<Rightarrow> bool \<Rightarrow> path \<Rightarrow> int \<Rightarrow> int \<Rightarrow> string \<Rightarrow> path option
     \<Rightarrow> unit action" where
  "linkCoreWithPeano w objFile tempDir targetArch verbose peanoDir col row elfFileName
       mmObjectFilePath =
     (let elfFile = path_append tempDir elfFileName;
          ldscriptPath = path_append tempDir (elfFileName @ ''.ld'') in
      andThen (emitTranslation w ldscriptPath (AIETranslateToLdScript w) col row ''ldscript'')
        (\<lambda>_. let targetLower = lower targetArch;
                  flags = [objFile]
                    @ (case mmObjectFilePath of None \<Rightarrow> [] | Some mm \<Rightarrow> [mm])
                    @ [''--target='' @ targetLower @ ''-none-unknown-elf'',
                       ''-Wl,--gc-sections'',
                       ''-Wl,--orphan-handling=error'',
                       ''-Wl,-T,'' @ ldscriptPath,
                       ''-o'', elfFile]
                    @ (if verbose then [''-v''] else [])
              in runTool w (pjoin peanoDir [''bin'', ''clang'']) flags verbose None))"

text \<open>
  The body of the loop over the tile operations, for the tile at index \<open>i\<close>. The local
  \<open>vitisDir\<close> of \<^verbatim>\<open>generateCoreElfFiles\<close> is carried from one round to the next.
\<close>

definition coreLoopBody ::
  "world \<Rightarrow> string \<Rightarrow> path \<Rightarrow> bool \<Rightarrow> string \<Rightarrow> bool \<Rightarrow> path \<Rightarrow> string \<Rightarrow> string option
     \<Rightarrow> string \<times> string \<times> string \<Rightarrow> path option \<Rightarrow> nat \<Rightarrow> (path option) action" where
  "coreLoopBody w objFile tempDir useChess targetArch verbose peanoDir npuVersion ukernel uk
       vitisDir i s =
     (let tileOp = getTileOps (deviceOp s) ! i;
          col = getCol tileOp;
          row = getRow tileOp in
      case getCoreOp tileOp of
        None \<Rightarrow> (Inr vitisDir, s)
      | Some coreOp \<Rightarrow>
          andThen (chooseElfFileName i tileOp coreOp)
            (\<lambda>elfFileName.
               andThen
                 (if wantsUkernel ukernel
                  then andThen (ukernelObject w tempDir verbose npuVersion uk vitisDir)
                         (\<lambda>r. ret (Some (fst r), snd r))
                  else ret (None, vitisDir))
                 (\<lambda>r. if useChess
                       then linkCoreWithChess w objFile tempDir verbose npuVersion col row
                              elfFileName (fst r) (snd r)
                       else andThen (linkCoreWithPeano w objFile tempDir targetArch verbose
                                       peanoDir col row elfFileName (fst r))
                              (\<lambda>_. ret (snd r)))) s)"

definition generateCoreElfFiles ::
  "world \<Rightarrow> string \<Rightarrow> path \<Rightarrow> bool \<Rightarrow> path option \<Rightarrow> string \<Rightarrow> bool \<Rightarrow> path \<Rightarrow> string
     \<Rightarrow> string option \<Rightarrow> unit action" where
  "generateCoreElfFiles w objFile tempDir useChess vitisDir targetArch verbose peanoDir npuVersion
       ukernel s =
     (case (if npuVersion = ''npu1'' then Some (mm_npu1_cc w, ''mm_npu1.cc'', ''mm_npu1.o'')
            else if npuVersion = ''npu4'' then Some (mm_npu4_cc w, ''mm_npu4.cc'', ''mm_npu4.o'')
            else None) of
        None \<Rightarrow> (Inl (UnsupportedNPUVersion npuVersion), s)
      | Some uk \<Rightarrow>
          andThen
            (forEach (coreLoopBody w objFile tempDir useChess targetArch verbose peanoDir
                        npuVersion ukernel uk)
               vitisDir [0..<length (getTileOps (deviceOp s))])
            (\<lambda>_. ret ()) s)"


section \<open>CdoPdiPackager\<close>

text \<open>Lines joined by a newline character, none after the last.\<close>

fun joinLines :: "string list \<Rightarrow> string" where
  "joinLines [] = []"
| "joinLines [l] = l"
| "joinLines (l # ls) = l @ CHR 0x0A # joinLines ls"

text \<open>\<^verbatim>\<open>generateCDO\<close> translates a clone of the module: the device module stays as it is.\<close>

definition generateCDO :: "world \<Rightarrow> path \<Rightarrow> unit action" where
  "generateCDO w tempDir s =
     (case AIETranslateToCDODirect w (deviceOp s) tempDir (fsys s) of
        (ok, f') \<Rightarrow>
          if \<not> ok then (Inl CdoGenerationFailed, s\<lparr>fsys := f'\<rparr>)
          else (Inr (), s\<lparr>fsys := f'\<rparr>))"

definition designBif :: "path \<Rightarrow> string" where
  "designBif tempDir = joinLines
     [''all:'',
      ''{'',
      ''  id_code = 0x14ca8093'',
      ''  extended_id_code = 0x01'',
      ''  image'',
      ''  {'',
      ''    name=aie_image, id=0x1c000000'',
      ''    { type=cdo'',
      ''      file='' @ tempDir @ ''/aie_cdo_elfs.bin'',
      ''      file='' @ tempDir @ ''/aie_cdo_init.bin'',
      ''      file='' @ tempDir @ ''/aie_cdo_enable.bin'',
      ''    }'',
      ''  }'',
      ''}'']"

text \<open>\<^verbatim>\<open>generatePDI\<close>: the boot-image generator runs in process, not through \<^verbatim>\<open>runTool\<close>.\<close>

definition generatePDI :: "world \<Rightarrow> string \<Rightarrow> path \<Rightarrow> unit action" where
  "generatePDI w Output tempDir s =
     (let designBifFile = path_append tempDir ''design.bif'' in
      if \<not> openOutputFile w (fsys s) designBifFile then (Inl (OpenFailed designBifFile), s)
      else
        let flags = [[], ''-arch'', ''versal'', ''-image'', designBifFile, ''-o'', Output, ''-w''] in
        (case bootgen_main w flags ((fsys s)(designBifFile \<mapsto> Regular (designBif tempDir))) of
           (rc, f') \<Rightarrow>
             if rc \<noteq> 0 then (Inl BootImageFailed, s\<lparr>fsys := f'\<rparr>)
             else (Inr (), s\<lparr>fsys := f'\<rparr>)))"

section \<open>XclbinPackager\<close>

text \<open>
  \<^verbatim>\<open>uuid::getUUIDString\<close>: numbers written with \<^verbatim>\<open>std::hex\<close> (lower case, no
  padding) in groups of 8, 4, 3, 1 + 3 and 12, the third group after a literal 4.
\<close>

definition hexLower :: "nat \<Rightarrow> string" where
  "hexLower n = lower (hexDigits n)"

definition getUUIDString :: "world \<Rightarrow> string" where
  "getUUIDString w =
     concat (map (\<lambda>i. hexLower (dis w i)) [0..<8]) @ ''-''
     @ concat (map (\<lambda>i. hexLower (dis w i)) [8..<12]) @ ''-4''
     @ concat (map (\<lambda>i. hexLower (dis w i)) [12..<15]) @ ''-''
     @ hexLower (dis2 w) @ concat (map (\<lambda>i. hexLower (dis w i)) [15..<18]) @ ''-''
     @ concat (map (\<lambda>i. hexLower (dis w i)) [18..<30])"

text \<open>A \<^verbatim>\<open>json::Object\<close> whose values are all strings.\<close>

definition kernelArgument :: "(string \<times> string) list \<Rightarrow> json" where
  "kernelArgument kvs = Object (map (\<lambda>(k, v). (k, String v)) kvs)"

definition makeKernelJSON :: "string \<Rightarrow> string \<Rightarrow> string \<Rightarrow> json" where
  "makeKernelJSON name kernelId instanceName = Object
     [(''name'', String name),
      (''type'', String ''dpu''),
      (''extended-data'',
         Object [(''subtype'', String ''DPU''), (''functional'', String ''0''),
                 (''dpu_kernel_id'', String kernelId)]),
      (''arguments'', Array
         [kernelArgument [(''name'', ''opcode''), (''address-qualifier'', ''SCALAR''),
                          (''type'', ''uint64_t''), (''offset'', ''0x00'')],
          kernelArgument [(''name'', ''instr''), (''memory-connection'', ''SRAM''),
                          (''address-qualifier'', ''GLOBAL''), (''type'', ''char *''),
                          (''offset'', ''0x08'')],
          kernelArgument [(''name'', ''ninstr''), (''address-qualifier'', ''SCALAR''),
                          (''type'', ''uint32_t''), (''offset'', ''0x10'')],
          kernelArgument [(''name'', ''bo0''), (''memory-connection'', ''HOST''),
                          (''address-qualifier'', ''GLOBAL''), (''type'', ''void*''),
                          (''offset'', ''0x14'')],
          kernelArgument [(''name'', ''bo1''), (''memory-connection'', ''HOST''),
                          (''address-qualifier'', ''GLOBAL''), (''type'', ''void*''),
                          (''offset'', ''0x1c'')],
          kernelArgument [(''name'', ''bo2''), (''memory-connection'', ''HOST''),
                          (''address-qualifier'', ''GLOBAL''), (''type'', ''void*''),
                          (''offset'', ''0x24'')],
          kernelArgument [(''name'', ''bo3''), (''memory-connection'', ''HOST''),
                          (''address-qualifier'', ''GLOBAL''), (''type'', ''void*''),
                          (''offset'', ''0x2c'')],
          kernelArgument [(''name'', ''bo4''), (''memory-connection'', ''HOST''),
                          (''address-qualifier'', ''GLOBAL''), (''type'', ''void*''),
                          (''offset'', ''0x34'')],
          kernelArgument [(''name'', ''bo5''), (''memory-connection'', ''HOST''),
                          (''address-qualifier'', ''GLOBAL''), (''type'', ''void*''),
                          (''offset'', ''0x3c'')]]),
      (''instances'', Array [Object [(''name'', String instanceName)]])]"

text \<open>The document written to \<^verbatim>\<open>kernels.json\<close> by \<^verbatim>\<open>generateXCLBin\<close>.\<close>

definition kernelsData :: "string \<Rightarrow> string \<Rightarrow> string \<Rightarrow> json" where
  "kernelsData xclBinKernelName xclBinKernelID xclBinInstanceName = Object
     [(''ps-kernels'',
         Object [(''kernels'',
                    Array [makeKernelJSON xclBinKernelName xclBinKernelID xclBinInstanceName])])]"

definition memTopologyData :: string where
  \<open>memTopologyData = joinLines
     [''{'',
      ''      "mem_topology": {'',
      ''          "m_count": "2",'',
      ''          "m_mem_data": ['',
      ''              {'',
      ''                  "m_type": "MEM_DRAM",'',
      ''                  "m_used": "1",'',
      ''                  "m_sizeKB": "0x10000",'',
      ''                  "m_tag": "HOST",'',
      ''                  "m_base_address": "0x4000000"'',
      ''              },'',
      ''              {'',
      ''                  "m_type": "MEM_DRAM",'',
      ''                  "m_used": "1",'',
      ''                  "m_sizeKB": "0xc000",'',
      ''                  "m_tag": "SRAM",'',
      ''                  "m_base_address": "0x4000000"'',
      ''              }'',
      ''          ]'',
      ''      }'',
      ''    }'']\<close>

definition aiePartitionJsonData :: "string \<Rightarrow> string \<Rightarrow> string" where
  \<open>aiePartitionJsonData uuidStr xclBinKernelID = joinLines
     [[],
      ''      {'',
      ''        "aie_partition": {'',
      ''          "name": "QoS",'',
      ''          "operations_per_cycle": "2048",'',
      ''          "inference_fingerprint": "23423",'',
      ''          "pre_post_fingerprint": "12345",'',
      ''          "partition": {'',
      ''            "column_width": 4,'',
      ''            "start_columns": [1]'',
      ''          },'',
      ''          "PDIs": ['',
      ''            {'',
      ''              "uuid": "'' @ uuidStr @ ''",'',
      ''              "file_name": "./design.pdi",'',
      ''              "cdo_groups": ['',
      ''                {'',
      ''                  "name": "DPU",'',
      ''                  "type": "PRIMARY",'',
      ''                  "pdi_id": "0x01",'',
      ''                  "dpu_kernel_ids": ['',
      ''                    "'' @ xclBinKernelID @ ''"'',
      ''                  ],'',
      ''                  "pre_cdo_groups": ['',
      ''                    "0xC1"'',
      ''                  ]'',
      ''                }'',
      ''              ]'',
      ''            }'',
      ''          ]'',
      ''        }'',
      ''      }'',
      ''    '']\<close>


text \<open>
  The accessors of \<^verbatim>\<open>llvm::json\<close> that \<^verbatim>\<open>generateXCLBin\<close> chains: each returns a
  null pointer (\<open>None\<close>) when the value is not of the kind asked for or the key is absent.
\<close>

definition getAsObject :: "json \<Rightarrow> (string \<times> json) list option" where
  "getAsObject v = (case v of Object kvs \<Rightarrow> Some kvs | _ \<Rightarrow> None)"

definition getObject :: "(string \<times> json) list \<Rightarrow> string \<Rightarrow> (string \<times> json) list option" where
  "getObject kvs k = (case map_of kvs k of Some (Object obj) \<Rightarrow> Some obj | _ \<Rightarrow> None)"

definition getArray :: "(string \<times> json) list \<Rightarrow> string \<Rightarrow> json list option" where
  "getArray kvs k = (case map_of kvs k of Some (Array arr) \<Rightarrow> Some arr | _ \<Rightarrow> None)"

text \<open>\<^verbatim>\<open>v->getAsObject()->getObject("aie_partition")->getArray("PDIs")\<close>\<close>

definition getPDIs :: "json \<Rightarrow> json list option" where
  "getPDIs v =
     (case getAsObject v of
        None \<Rightarrow> None
      | Some doc \<Rightarrow>
          (case getObject doc ''aie_partition'' of
             None \<Rightarrow> None
           | Some part \<Rightarrow> getArray part ''PDIs''))"

text \<open>Assigning to the value stored under a key of an object.\<close>

fun assign :: "string \<Rightarrow> json \<Rightarrow> (string \<times> json) list \<Rightarrow> (string \<times> json) list" where
  "assign k v [] = [(k, v)]"
| "assign k v ((k', v') # kvs) = (if k = k' then (k, v) # kvs else (k', v') # assign k v kvs)"

text \<open>
  The array reached through the pointer \<^verbatim>\<open>aieInputPartionPDIs\<close> lives inside the parsed
  document: inserting into it changes the document that is written back.
\<close>

definition setPDIs :: "json \<Rightarrow> json list \<Rightarrow> json" where
  "setPDIs v pdis =
     (case getAsObject v of
        None \<Rightarrow> v
      | Some doc \<Rightarrow>
          (case getObject doc ''aie_partition'' of
             None \<Rightarrow> v
           | Some part \<Rightarrow>
               Object (assign ''aie_partition''
                         (Object (assign ''PDIs'' (Array pdis) part)) doc)))"

text \<open>
  Reading the kernel descriptor: the kernel entries of the document, the argument list of
  a kernel entry, a string-valued field of an object, and the number an offset string
  such as \<^verbatim>\<open>0x1c\<close> denotes. Used only to state what \<^verbatim>\<open>makeKernelJSON\<close> builds.
\<close>

definition kernelEntries :: "json \<Rightarrow> json list" where
  "kernelEntries v =
     (case getAsObject v of
        None \<Rightarrow> []
      | Some doc \<Rightarrow>
          (case getObject doc ''ps-kernels'' of
             None \<Rightarrow> []
           | Some ps \<Rightarrow> (case getArray ps ''kernels'' of None \<Rightarrow> [] | Some ks \<Rightarrow> ks)))"

definition argumentList :: "json \<Rightarrow> json list" where
  "argumentList k =
     (case getAsObject k of
        None \<Rightarrow> []
      | Some kvs \<Rightarrow> (case getArray kvs ''arguments'' of None \<Rightarrow> [] | Some args \<Rightarrow> args))"

definition stringField :: "string \<Rightarrow> json \<Rightarrow> string option" where
  "stringField k v =
     (case getAsObject v of
        None \<Rightarrow> None
      | Some kvs \<Rightarrow> (case map_of kvs k of Some (String x) \<Rightarrow> Some x | _ \<Rightarrow> None))"

definition offsetValue :: "string \<Rightarrow> nat" where
  "offsetValue x =
     foldl (\<lambda>a c. 16 * a + (case find_if (\<lambda>d. d = c) ''0123456789abcdef'' of
                               Some i \<Rightarrow> i
                             | None \<Rightarrow> hexDigitValue c))
       0 (drop 2 x)"

definition argumentRow :: "json \<Rightarrow> string option \<times> string option \<times> string option \<times> string option" where
  "argumentRow a = (stringField ''name'' a, stringField ''address-qualifier'' a,
                     stringField ''memory-connection'' a, stringField ''offset'' a)"

definition openInputFile :: "fs \<Rightarrow> path \<Rightarrow> string option" where
  "openInputFile f p = (case f p of Some (Regular buf) \<Rightarrow> Some buf | _ \<Rightarrow> None)"

text \<open>
  The merge with a base container, after its partition section has been dumped to
  \<^verbatim>\<open>aie_input_partition.json\<close>: both documents are parsed, the new document's PDI array
  is inserted at the end of the dumped one's, and the dumped document is written over
  \<^verbatim>\<open>aie_partition.json\<close>. Neither the parse results nor the pointers are checked.
\<close>

definition rewritePartition :: "world \<Rightarrow> path \<Rightarrow> unit action" where
  "rewritePartition w tempDir s =
     (let aieInputPartitionJsonFile = path_append tempDir ''aie_input_partition.json'';
          aiePartitionJsonFile = path_append tempDir ''aie_partition.json'' in
      case openInputFile (fsys s) aieInputPartitionJsonFile of
        None \<Rightarrow> (Inl (OpenFailed aieInputPartitionJsonFile), s)
      | Some aieInputPartitionOut \<Rightarrow>
          (case json_parse w aieInputPartitionOut of
             None \<Rightarrow> (Inl (Fault DerefFailure), s)
           | Some aieInputPartitionOutValue \<Rightarrow>
               (case getPDIs aieInputPartitionOutValue of
                  None \<Rightarrow> (Inl (Fault NullPointer), s)
                | Some aieInputPartionPDIs \<Rightarrow>
                    (case openInputFile (fsys s) aiePartitionJsonFile of
                       None \<Rightarrow> (Inl (OpenFailed aiePartitionJsonFile), s)
                     | Some aiePartitionOut \<Rightarrow>
                         (case json_parse w aiePartitionOut of
                            None \<Rightarrow> (Inl (Fault DerefFailure), s)
                          | Some aiePartitionOutValue \<Rightarrow>
                              (case getPDIs aiePartitionOutValue of
                                 None \<Rightarrow> (Inl (Fault NullPointer), s)
                               | Some aiePartionPDIs \<Rightarrow>
                                   dumpStrToDisk w
                                     (json_format w
                                        (setPDIs aieInputPartitionOutValue
                                           (aieInputPartionPDIs @ aiePartionPDIs)))
                                     aiePartitionJsonFile s))))))"

definition generateXCLBin ::
  "world \<Rightarrow> string \<Rightarrow> path \<Rightarrow> string \<Rightarrow> string \<Rightarrow> string \<Rightarrow> path \<Rightarrow> bool \<Rightarrow> string option
     \<Rightarrow> unit action" where
  "generateXCLBin w Output tempDir xclBinKernelID xclBinKernelName xclBinInstanceName
       amdAIEInstallDir verbose inputXclbin =
     (let memTopologyJsonFile = path_append tempDir ''mem_topology.json'';
          aiePartitionJsonFile = path_append tempDir ''aie_partition.json'';
          kernelsJsonFile = path_append tempDir ''kernels.json'';
          memArg = ''MEM_TOPOLOGY:JSON:'' @ memTopologyJsonFile;
          partArg = ''AIE_PARTITION:JSON:'' @ aiePartitionJsonFile in
      andThen (dumpStrToDisk w memTopologyData memTopologyJsonFile) (\<lambda>_.
      andThen (dumpStrToDisk w (aiePartitionJsonData (getUUIDString w) xclBinKernelID)
                 aiePartitionJsonFile) (\<lambda>_.
      andThen (dumpStrToDisk w
                 (json_format w (kernelsData xclBinKernelName xclBinKernelID xclBinInstanceName))
                 kernelsJsonFile) (\<lambda>_.
      andThen (generatePDI w (path_append tempDir ''design.pdi'') tempDir) (\<lambda>_.
      andThen (\<lambda>s. (findAMDAIETool w (fsys s) ''iree-aie-xclbinutil'' amdAIEInstallDir, s))
        (\<lambda>xclbinutilBin.
      andThen
        (case inputXclbin of
           None \<Rightarrow> ret [''--add-replace-section'', memArg]
         | Some input \<Rightarrow>
             let aieInputPartitionJsonFile = path_append tempDir ''aie_input_partition.json'';
                 inputPartArg = ''AIE_PARTITION:JSON:'' @ aieInputPartitionJsonFile;
                 inputFlags = [''--dump-section'', inputPartArg, ''--force'', ''--input'', input]
             in andThen (runTool w xclbinutilBin inputFlags verbose None) (\<lambda>_.
                andThen (rewritePartition w tempDir) (\<lambda>_.
                ret [''--input'', input])))
        (\<lambda>flags.
           runTool w xclbinutilBin
             (flags @ [''--add-kernel'', kernelsJsonFile, ''--add-replace-section'', partArg,
                       ''--force'', ''--output'', Output])
             verbose None)))))))"

section \<open>UnifiedObjectBuilder\<close>

text \<open>
  \<^verbatim>\<open>generateUnifiedObject\<close>. The pass pipeline and the translation to LLVM IR run on a
  clone of the module and are taken from the \<open>world\<close>; the flags that only print IR or
  timing are left out.
\<close>

definition generateUnifiedObject ::
  "world \<Rightarrow> string \<Rightarrow> bool \<Rightarrow> bool \<Rightarrow> path \<Rightarrow> path option \<Rightarrow> string \<Rightarrow> path \<Rightarrow> string \<Rightarrow> string
     \<Rightarrow> unit action" where
  "generateUnifiedObject w outputFile useChess verbose tempDir vitisDir targetArch peanoDir
       npuVersion additionalPeanoOptFlags s =
     (case coreToLLVMIR w useChess (deviceOp s) of
        PassesFailed \<Rightarrow> (Inl LoweringFailed, s)
      | NoLLVMModule \<Rightarrow> (Inl TranslationFailed, s)
      | LLVMIR inputLLStr \<Rightarrow>
          if useChess then
            (case findVitis w (fsys s) vitisDir npuVersion of
               (Inl e, vitisDir') \<Rightarrow> (Inl e, s)
             | (Inr maybeVitisDir, vitisDir') \<Rightarrow>
                 andThen (assembleStringUsingChess w inputLLStr ''input.ll'' outputFile tempDir []
                            tempDir maybeVitisDir npuVersion verbose)
                   (\<lambda>chessIntrinsicsObjFile. ret ()) s)
          else
            (let LLVMIRFile = path_append tempDir ''input.ll'' in
             andThen (dumpStrToDisk w inputLLStr LLVMIRFile) (\<lambda>_.
               let peanoOptBin = pjoin peanoDir [''bin'', ''opt''];
                   peanoLLCBin = pjoin peanoDir [''bin'', ''llc''];
                   OptLLVMIRFile = path_append tempDir ''input.opt.ll''
               in (case makePeanoOptArgs LLVMIRFile OptLLVMIRFile additionalPeanoOptFlags of
                     Inl e \<Rightarrow> fail e
                   | Inr peanoArgs \<Rightarrow>
                       andThen (runTool w peanoOptBin peanoArgs verbose None) (\<lambda>_.
                         runTool w peanoLLCBin
                           [OptLLVMIRFile, ''-O2'', ''--march='' @ lower targetArch,
                            ''--function-sections'', ''--filetype=obj'', ''-o'', outputFile]
                           verbose None))) s))"

text \<open>\<^verbatim>\<open>generateControlPackets\<close> runs two passes on the module itself.\<close>

definition generateControlPackets :: "world \<Rightarrow> path \<Rightarrow> unit action" where
  "generateControlPackets w tempDirPath s =
     (case convertDeviceToControlPackets w tempDirPath (deviceOp s) of
        (ok, d) \<Rightarrow>
          if \<not> ok then (Inl ControlPacketsFailed, s\<lparr>deviceOp := d\<rparr>)
          else (Inr (), s\<lparr>deviceOp := d\<rparr>))"


section \<open>Orchestrator: \<^verbatim>\<open>emitNpuInstructions\<close> and \<^verbatim>\<open>aie2xclbin\<close>\<close>

text \<open>
  \<^verbatim>\<open>ArrayRef::operator[]\<close> and \<^verbatim>\<open>ArrayRef::back\<close>: \<open>None\<close> outside the array.
\<close>

definition arrayRefAt :: "'a list \<Rightarrow> nat \<Rightarrow> 'a option" where
  "arrayRefAt xs i = (if i < length xs then Some (xs ! i) else None)"

definition arrayRefBack :: "'a list \<Rightarrow> 'a option" where
  "arrayRefBack xs = (if xs = [] then None else Some (last xs))"

text \<open>
  \<^verbatim>\<open>maybeArrayRef->size() - 1\<close> in \<^verbatim>\<open>size_t\<close>: at size 0 the subtraction wraps
  around to \<open>2 ^ 64 - 1\<close>.
\<close>

definition sizeMinusOne :: "nat \<Rightarrow> nat" where
  "sizeMinusOne n = (if n = 0 then 2 ^ 64 - 1 else n - 1)"

text \<open>The largest value of the 32-bit \<^verbatim>\<open>int\<close> that counts the loop's rounds.\<close>

definition INT_MAX :: nat where
  "INT_MAX = 2147483647"

text \<open>
  The loop \<^verbatim>\<open>for (int i = 0; i < size() - 1; ++i)\<close> writing to the output stream
  \<open>out\<close>. The counter \<open>i\<close> is never negative, so its conversion to \<^verbatim>\<open>size_t\<close>
  for the comparison keeps its value. The loop stops at the first read outside the array,
  and at \<^verbatim>\<open>++i\<close> when \<open>i\<close> holds the largest \<^verbatim>\<open>int\<close>.
\<close>

function emitLoop :: "32 word list \<Rightarrow> nat \<Rightarrow> nat \<Rightarrow> string \<Rightarrow> fault + string" where
  "emitLoop ws bound i out =
     (if i < bound then
        (case arrayRefAt ws i of
           None \<Rightarrow> Inl IndexOutOfBounds
         | Some word \<Rightarrow>
             if i = INT_MAX then Inl SignedOverflow
             else emitLoop ws bound (Suc i) (out @ format08X word @ [CHR 0x0A]))
      else Inr out)"
  by pat_completeness auto
termination
  by (relation "measure (\<lambda>(ws, bound, i, out). length ws - i)")
     (auto simp: arrayRefAt_def split: if_splits)

declare emitLoop.simps [simp del]

text \<open>
  What the statements after \<^verbatim>\<open>output->keep()\<close> write, or the fault they end in.
\<close>

definition npuInstructionsText :: "32 word list \<Rightarrow> fault + string" where
  "npuInstructionsText ws =
     (case emitLoop ws (sizeMinusOne (length ws)) 0 [] of
        Inl flt \<Rightarrow> Inl flt
      | Inr out \<Rightarrow>
          (case arrayRefBack ws of
             None \<Rightarrow> Inl IndexOutOfBounds
           | Some word \<Rightarrow> Inr (out @ format08X word)))"

definition emitNpuInstructions :: "world \<Rightarrow> string \<Rightarrow> unit action" where
  "emitNpuInstructions w outputNPU s =
     (case getNpuInstructions (deviceOp s) of
        None \<Rightarrow> (Inl MissingInstructions, s)
      | Some OtherAttr \<Rightarrow> (Inl WrongInstructionsType, s)
      | Some (DenseUI32ResourceElementsAttr maybeArrayRef) \<Rightarrow>
          (case maybeArrayRef of
             None \<Rightarrow> (Inl (Fault BadOptionalAccess), s)
           | Some ws \<Rightarrow>
               if \<not> openOutputFile w (fsys s) outputNPU then (Inl (OpenFailed outputNPU), s)
               else
                 (case npuInstructionsText ws of
                    Inl flt \<Rightarrow> (Inl (Fault flt), s)
                  | Inr out \<Rightarrow> (Inr (), s\<lparr>fsys := (fsys s)(outputNPU \<mapsto> Regular out)\<rparr>))))"

text \<open>
  The first statement of \<^verbatim>\<open>aie2xclbin\<close>: the instruction dump, when an output path
  for it is given.
\<close>

definition dumpInstructions :: "world \<Rightarrow> string option \<Rightarrow> unit action" where
  "dumpInstructions w outputNPU =
     (case outputNPU of None \<Rightarrow> ret () | Some p \<Rightarrow> emitNpuInstructions w p)"

datatype DeviceHAL = XRT | XRT_LITE

text \<open>
  \<^verbatim>\<open>aie2xclbin\<close>, with the parameters of the source in their order; the context and the
  four flags that only print IR or timing are left out. \<^verbatim>\<open>make_preferred\<close> changes
  nothing on POSIX.
\<close>

definition aie2xclbin ::
  "world \<Rightarrow> string option \<Rightarrow> bool \<Rightarrow> string \<Rightarrow> string \<Rightarrow> bool \<Rightarrow> bool \<Rightarrow> string option \<Rightarrow> string
     \<Rightarrow> string \<Rightarrow> string \<Rightarrow> DeviceHAL \<Rightarrow> string \<Rightarrow> string \<Rightarrow> string \<Rightarrow> string \<Rightarrow> string option
     \<Rightarrow> string option \<Rightarrow> string \<Rightarrow> unit action" where
  "aie2xclbin w outputNPU emitCtrlPkt artifactPath tempDir useChess verbose vitisDir targetArch
       npuVersion peanoDir deviceHal xclBinKernelID xclBinKernelName xclBinInstanceName
       amdAIEInstallDir InputXCLBin ukernel additionalPeanoOptFlags =
     (let tempDirPath = tempDir;
          peanoDirPath = peanoDir;
          vitisDirPath = vitisDir;
          unifiedObj = path_append tempDirPath ''input.o'';
          pdiPath = path_append tempDirPath ''design.pdi'' in
      andThen (dumpInstructions w outputNPU) (\<lambda>_.
      andThen (generateUnifiedObject w unifiedObj useChess verbose tempDirPath vitisDirPath
                 targetArch peanoDirPath npuVersion additionalPeanoOptFlags) (\<lambda>_.
      andThen (generateCoreElfFiles w unifiedObj tempDirPath useChess vitisDirPath targetArch
                 verbose peanoDir npuVersion ukernel) (\<lambda>_.
      andThen (if emitCtrlPkt then generateControlPackets w tempDirPath else ret ()) (\<lambda>_.
      andThen (generateCDO w tempDirPath) (\<lambda>_.
      andThen (generatePDI w pdiPath tempDirPath) (\<lambda>_.
        if deviceHal = XRT_LITE
        then (\<lambda>s. case copy_file w pdiPath artifactPath (fsys s) of
                     None \<Rightarrow> (Inl CopyFailed, s)
                   | Some f' \<Rightarrow> (Inr (), s\<lparr>fsys := f'\<rparr>))
        else generateXCLBin w artifactPath tempDirPath xclBinKernelID xclBinKernelName
               xclBinInstanceName amdAIEInstallDir verbose InputXCLBin)))))))"


section \<open>Notions used to state the properties\<close>

text \<open>The file name \<^verbatim>\<open>generateCoreElfFiles\<close> synthesises for a tile.\<close>

definition synthesizedElfName :: "TileOp \<Rightarrow> string" where
  "synthesizedElfName t =
     ''core_'' @ to_string (getCol t) @ ''_'' @ to_string (getRow t) @ ''.elf''"

text \<open>
  A tile after its round of the loop: unchanged if it has no core or its core has an ELF
  file name already, otherwise with the synthesised name stored on its core.
\<close>

definition nameTile :: "TileOp \<Rightarrow> TileOp" where
  "nameTile t =
     (case getCoreOp t of
        None \<Rightarrow> t
      | Some c \<Rightarrow>
          (case getElfFileAttr c of
             Some n \<Rightarrow> t
           | None \<Rightarrow> t\<lparr>getCoreOp := Some (c\<lparr>getElfFileAttr := Some (synthesizedElfName t)\<rparr>)\<rparr>))"

text \<open>An action that leaves the device module as it is, whatever else it does.\<close>

definition keepsDevice :: "'a action \<Rightarrow> bool" where
  "keepsDevice m = (\<forall>s. deviceOp (snd (m s)) = deviceOp s)"

text \<open>The device module has a tile that carries a compute core.\<close>

definition hasCore :: "DeviceOp \<Rightarrow> bool" where
  "hasCore d = (\<exists>t \<in> set (getTileOps d). getCoreOp t \<noteq> None)"

section \<open>Concrete hosts and device modules for the worked examples\<close>

text \<open>
  A host for evaluating the pipeline on concrete inputs: the environment variables, the
  behaviour of external programs and the JSON parser are given; every file can be opened
  for writing, temporary files are created, the in-process translators succeed, no
  program is found on the search path and the working directory is \<^verbatim>\<open>/cwd\<close>.
\<close>

definition exampleWorld ::
  "(string \<Rightarrow> string option)
     \<Rightarrow> (path \<Rightarrow> string list \<Rightarrow> string list \<Rightarrow> path \<Rightarrow> fs \<Rightarrow> int \<times> string \<times> fs)
     \<Rightarrow> (string \<Rightarrow> json option) \<Rightarrow> world" where
  "exampleWorld env run parse =
     \<lparr>getenv = env,
      findProgramByName = (\<lambda>_. None),
      real_path = Some,
      remove_filename = (\<lambda>p. p),
      current_path = ''/cwd'',
      findTool = (\<lambda>t. ''/usr/bin/'' @ t),
      openOutputFile = (\<lambda>_ _. True),
      createTemporaryFile = (\<lambda>_. Some ''/tmp/tmpRunToolLogging''),
      ExecuteAndWait = run,
      bootgen_main = (\<lambda>_ f. (0, f)),
      copy_file = (\<lambda>a b f. map_option (\<lambda>e. f(b \<mapsto> e)) (f a)),
      dis = (\<lambda>_. 0),
      dis2 = 8,
      json_parse = parse,
      json_format = (\<lambda>_. ''{}''),
      coreToLLVMIR = (\<lambda>_ _. LLVMIR ''; ModuleID''),
      AIETranslateToBCF = (\<lambda>_ _ _. Some ''_entry_point _main_init''),
      AIETranslateToLdScript = (\<lambda>_ _ _. Some ''ENTRY(_main_init)''),
      AIETranslateToCDODirect = (\<lambda>_ _ f. (True, f)),
      convertDeviceToControlPackets = (\<lambda>_ d. (True, d)),
      mm_npu1_cc = ''// mm_npu1.cc'',
      mm_npu4_cc = ''// mm_npu4.cc'',
      chess_intrinsic_wrapper_cpp = ''// chess_intrinsic_wrapper.cpp''\<rparr>"

definition noEnv :: "string \<Rightarrow> string option" where
  "noEnv name = None"

definition noParse :: "string \<Rightarrow> json option" where
  "noParse buf = None"

text \<open>An external program that exits with code 0 and leaves the files as they are.\<close>

definition runsFine :: "path \<Rightarrow> string list \<Rightarrow> string list \<Rightarrow> path \<Rightarrow> fs \<Rightarrow> int \<times> string \<times> fs" where
  "runsFine program args env logPath f = (0, [], f)"

text \<open>An external program that exits with code 0 and removes the file its output goes to.\<close>

definition removesLog :: "path \<Rightarrow> string list \<Rightarrow> string list \<Rightarrow> path \<Rightarrow> fs \<Rightarrow> int \<times> string \<times> fs" where
  "removesLog program args env logPath f = (0, [], f(logPath := None))"

text \<open>A disk holding empty regular files at the given paths and nothing else.\<close>

definition filesAt :: "path list \<Rightarrow> fs" where
  "filesAt ps = (\<lambda>p. if p \<in> set ps then Some (Regular []) else None)"

text \<open>Device modules without tiles whose instruction attribute holds three words, and none.\<close>

definition threeWords :: DeviceOp where
  "threeWords = \<lparr>getTileOps = [],
                  getNpuInstructions = Some (DenseUI32ResourceElementsAttr (Some [0x1, 0x2, 0x3]))\<rparr>"

definition noWords :: DeviceOp where
  "noWords = \<lparr>getTileOps = [], getNpuInstructions = Some (DenseUI32ResourceElementsAttr (Some []))\<rparr>"

text \<open>A device module whose instruction attribute holds \<open>2 ^ 31 + 1\<close> words, all zero.\<close>

definition manyWords :: DeviceOp where
  "manyWords = \<lparr>getTileOps = [],
                 getNpuInstructions =
                   Some (DenseUI32ResourceElementsAttr (Some (replicate (2 ^ 31 + 1) 0)))\<rparr>"

text \<open>
  Environments naming a license file in one of the two license variables, and the files
  of a vendor toolchain installed under \<^verbatim>\<open>/vitis\<close> for the family \<^verbatim>\<open>npu1\<close>.
\<close>

definition licensedEnv :: "string \<Rightarrow> string option" where
  "licensedEnv name = (if name = ''XILINXD_LICENSE_FILE'' then Some ''/opt/Xilinx.lic''
                       else if name = ''PATH'' then Some ''/usr/bin'' else None)"

definition fallbackLicenseEnv :: "string \<Rightarrow> string option" where
  "fallbackLicenseEnv name = (if name = ''LM_LICENSE_FILE'' then Some ''/opt/Xilinx.lic''
                              else if name = ''PATH'' then Some ''/usr/bin'' else None)"

definition vitisFiles :: "path list" where
  "vitisFiles = [''/vitis/aietools'',
                 ''/vitis/aietools/tps/lnx64/target_aie_ml/bin/LNa64bin/chess-clang'',
                 ''/vitis/aietools/tps/lnx64/target_aie_ml/bin/LNa64bin/chess-llvm-link'']"

text \<open>A disk that holds the program \<^verbatim>\<open>/usr/bin/tool\<close> and nothing else.\<close>

definition toolOnly :: state where
  "toolOnly = \<lparr>fsys = filesAt [''/usr/bin/tool''],
               deviceOp = \<lparr>getTileOps = [], getNpuInstructions = None\<rparr>,
               trace = []\<rparr>"








text \<open>
  A device module with three tiles: a core at column 2, row 5 without an ELF file name, a
  core at column 0, row 2 whose ELF file name is preset to \<^verbatim>\<open>custom.elf\<close>, and a tile
  without a core; the same module after \<^verbatim>\<open>generateCoreElfFiles\<close>; and a host that
  holds the open backend under \<^verbatim>\<open>/peano\<close> and no vendor toolchain.
\<close>

definition threeTiles :: DeviceOp where
  "threeTiles =
     \<lparr>getTileOps =
        [\<lparr>getCol = 2, getRow = 5, getCoreOp = Some \<lparr>getElfFileAttr = None\<rparr>\<rparr>,
         \<lparr>getCol = 0, getRow = 2, getCoreOp = Some \<lparr>getElfFileAttr = Some ''custom.elf''\<rparr>\<rparr>,
         \<lparr>getCol = 0, getRow = 0, getCoreOp = None\<rparr>],
      getNpuInstructions = None\<rparr>"

definition threeTilesNamed :: DeviceOp where
  "threeTilesNamed =
     \<lparr>getTileOps =
        [\<lparr>getCol = 2, getRow = 5, getCoreOp = Some \<lparr>getElfFileAttr = Some ''core_2_5.elf''\<rparr>\<rparr>,
         \<lparr>getCol = 0, getRow = 2, getCoreOp = Some \<lparr>getElfFileAttr = Some ''custom.elf''\<rparr>\<rparr>,
         \<lparr>getCol = 0, getRow = 0, getCoreOp = None\<rparr>],
      getNpuInstructions = None\<rparr>"

definition peanoHost :: state where
  "peanoHost = \<lparr>fsys = filesAt [''/peano/bin/opt'', ''/peano/bin/llc'', ''/peano/bin/clang''],
                deviceOp = threeTiles, trace = []\<rparr>"

text \<open>
  An external program that exits with code 1; a device module with two cores, neither
  with an ELF file name; and the same module with the synthesised name stored on the
  first core only.
\<close>

definition linkFails :: "path \<Rightarrow> string list \<Rightarrow> string list \<Rightarrow> path \<Rightarrow> fs \<Rightarrow> int \<times> string \<times> fs" where
  "linkFails program args env logPath f = (1, ''exit code 1'', f)"

definition twoCores :: DeviceOp where
  "twoCores =
     \<lparr>getTileOps =
        [\<lparr>getCol = 2, getRow = 5, getCoreOp = Some \<lparr>getElfFileAttr = None\<rparr>\<rparr>,
         \<lparr>getCol = 3, getRow = 5, getCoreOp = Some \<lparr>getElfFileAttr = None\<rparr>\<rparr>],
      getNpuInstructions = None\<rparr>"

definition twoCoresFirstNamed :: DeviceOp where
  "twoCoresFirstNamed =
     \<lparr>getTileOps =
        [\<lparr>getCol = 2, getRow = 5, getCoreOp = Some \<lparr>getElfFileAttr = Some ''core_2_5.elf''\<rparr>\<rparr>,
         \<lparr>getCol = 3, getRow = 5, getCoreOp = Some \<lparr>getElfFileAttr = None\<rparr>\<rparr>],
      getNpuInstructions = None\<rparr>"

section \<open>Properties of \<^verbatim>\<open>makePeanoOptArgs\<close>\<close>

lemma find_if_none: "(\<forall>x\<in>set xs. \<not> p x) \<Longrightarrow> find_if p xs = None"
  by (induction xs) auto

lemma find_if_first:
  "(\<forall>x\<in>set pre. \<not> p x) \<Longrightarrow> p y \<Longrightarrow> find_if p (pre @ y # post) = Some (length pre)"
  by (induction pre) auto

lemma addFlag_opt:
  assumes "\<forall>a\<in>set pre. \<not> isOptLevelFlag a" and "isOptLevelFlag cur" and "isOptLevelFlag flag"
  shows "addFlag (pre @ cur # post) flag = pre @ flag # post"
proof -
  have "find_if (\<lambda>a. isContention a flag) (pre @ cur # post) = Some (length pre)"
    using assms by (intro find_if_first) (auto simp: isContention_def)
  then show ?thesis by (simp add: addFlag_def)
qed

lemma addFlag_other:
  assumes "\<not> isOptLevelFlag flag"
  shows "addFlag args flag = args @ [flag]"
proof -
  have "find_if (\<lambda>a. isContention a flag) args = None"
    using assms by (intro find_if_none) (auto simp: isContention_def)
  then show ?thesis by (simp add: addFlag_def)
qed

lemma foldl_addFlag:
  assumes "\<forall>a\<in>set pre. \<not> isOptLevelFlag a" and "isOptLevelFlag cur"
  shows "foldl addFlag (pre @ cur # post) flags =
           pre @ last (cur # filter isOptLevelFlag flags) # post
             @ filter (\<lambda>f. \<not> isOptLevelFlag f) flags"
  using assms(2)
proof (induction flags arbitrary: cur post)
  case Nil
  then show ?case by simp
next
  case (Cons f flags)
  show ?case
  proof (cases "isOptLevelFlag f")
    case True
    then have "addFlag (pre @ cur # post) f = pre @ f # post"
      using assms(1) Cons.prems by (simp add: addFlag_opt)
    then show ?thesis using Cons.IH [OF True, of post] True by simp
  next
    case False
    then have "addFlag (pre @ cur # post) f = pre @ cur # (post @ [f])"
      by (simp add: addFlag_other)
    then show ?thesis using Cons.IH [OF Cons.prems, of "post @ [f]"] False by simp
  qed
qed

lemma defaults_split:
  "defaultPeanoOptArgs fin fout =
     take 6 (defaultPeanoOptArgs fin fout) @ ''-O3'' # drop 7 (defaultPeanoOptArgs fin fout)"
  by (simp add: defaultPeanoOptArgs_def)

lemma defaults_prefix_plain:
  "\<forall>a\<in>set (take 6 (defaultPeanoOptArgs fin fout)). \<not> isOptLevelFlag a"
  by (simp add: defaultPeanoOptArgs_def isOptLevelFlag_def)

lemma makePeanoOptArgs_quoted:
  "makePeanoOptArgs fin fout (quoted s) =
     Inr (take 6 (defaultPeanoOptArgs fin fout)
          @ last (''-O3'' # filter isOptLevelFlag (istream_tokens s))
          # drop 7 (defaultPeanoOptArgs fin fout)
          @ filter (\<lambda>f. \<not> isOptLevelFlag f) (istream_tokens s))"
proof -
  have O3: "isOptLevelFlag ''-O3''" by (simp add: isOptLevelFlag_def)
  have "makePeanoOptArgs fin fout (quoted s) =
          Inr (foldl addFlag (defaultPeanoOptArgs fin fout) (istream_tokens s))"
    by (simp add: makePeanoOptArgs_def quoted_def Let_def)
  also have "foldl addFlag (defaultPeanoOptArgs fin fout) (istream_tokens s) =
     foldl addFlag (take 6 (defaultPeanoOptArgs fin fout) @ ''-O3'' # drop 7 (defaultPeanoOptArgs fin fout)) (istream_tokens s)"
    using defaults_split [of fin fout] by simp
  also have "\<dots> = take 6 (defaultPeanoOptArgs fin fout)
          @ last (''-O3'' # filter isOptLevelFlag (istream_tokens s))
          # drop 7 (defaultPeanoOptArgs fin fout)
          @ filter (\<lambda>f. \<not> isOptLevelFlag f) (istream_tokens s)"
    by (rule foldl_addFlag [OF defaults_prefix_plain O3])
  finally show ?thesis .
qed

lemma tokens_O2: "istream_tokens ''-O2'' = [''-O2'']"
  by (simp add: istream_tokens_def isspace_def)

text \<open>
  Claim C4, as stated, asks that for the additional-flag string \<^verbatim>\<open>"-O2"\<close> the result
  holds \<^verbatim>\<open>-O2\<close> exactly once and no \<^verbatim>\<open>-O3\<close>. The two file names are part of the
  default list: with the input file named \<^verbatim>\<open>-O2\<close> the result holds \<^verbatim>\<open>-O2\<close> twice.
\<close>

theorem makePeanoOptArgs_O2_twice_counterexample:
  "map_sum id (\<lambda>r. count_list r ''-O2'') (makePeanoOptArgs ''-O2'' ''output.ll'' (quoted ''-O2''))
     = Inr 2"
  by (simp add: makePeanoOptArgs_quoted tokens_O2 defaultPeanoOptArgs_def isOptLevelFlag_def)

text \<open>
  Claim C4, amended. When neither file name is itself \<^verbatim>\<open>-O2\<close> or \<^verbatim>\<open>-O3\<close>, the
  additional-flag string \<^verbatim>\<open>"-O2"\<close> gives the default list with its seventh entry, which
  was \<^verbatim>\<open>-O3\<close>, replaced by \<^verbatim>\<open>-O2\<close>: the list holds \<^verbatim>\<open>-O2\<close> exactly once and no
  \<^verbatim>\<open>-O3\<close>. For every quoted string, whatever the file names: the optimization-level
  flag stays in the seventh position and is the last optimization-level flag supplied
  (\<^verbatim>\<open>-O3\<close> if none is), nothing else of the default list changes, and the supplied flags
  that are not optimization-level flags are appended at the end in their order.
\<close>

theorem makePeanoOptArgs_conflict_resolution:
  "filenameIrIn \<notin> {''-O2'', ''-O3''} \<Longrightarrow> filenameIrOut \<notin> {''-O2'', ''-O3''} \<Longrightarrow>
     makePeanoOptArgs filenameIrIn filenameIrOut (quoted ''-O2'')
       = Inr ((defaultPeanoOptArgs filenameIrIn filenameIrOut)[6 := ''-O2''])
     \<and> defaultPeanoOptArgs filenameIrIn filenameIrOut ! 6 = ''-O3''
     \<and> count_list ((defaultPeanoOptArgs filenameIrIn filenameIrOut)[6 := ''-O2'']) ''-O2'' = 1
     \<and> ''-O3'' \<notin> set ((defaultPeanoOptArgs filenameIrIn filenameIrOut)[6 := ''-O2''])
     \<and> (\<forall>s. makePeanoOptArgs filenameIrIn filenameIrOut (quoted s)
            = Inr (take 6 (defaultPeanoOptArgs filenameIrIn filenameIrOut)
                   @ last (''-O3'' # filter isOptLevelFlag (istream_tokens s))
                   # drop 7 (defaultPeanoOptArgs filenameIrIn filenameIrOut)
                   @ filter (\<lambda>f. \<not> isOptLevelFlag f) (istream_tokens s)))"
proof -
  assume a: "filenameIrIn \<notin> {''-O2'', ''-O3''}" and b: "filenameIrOut \<notin> {''-O2'', ''-O3''}"
  have 1: "makePeanoOptArgs filenameIrIn filenameIrOut (quoted ''-O2'')
       = Inr ((defaultPeanoOptArgs filenameIrIn filenameIrOut)[6 := ''-O2''])"
    by (simp add: makePeanoOptArgs_quoted tokens_O2 defaultPeanoOptArgs_def isOptLevelFlag_def)
  have 2: "defaultPeanoOptArgs filenameIrIn filenameIrOut ! 6 = ''-O3''"
    by (simp add: defaultPeanoOptArgs_def)
  have 3: "count_list ((defaultPeanoOptArgs filenameIrIn filenameIrOut)[6 := ''-O2'']) ''-O2'' = 1"
    using a b by (simp add: defaultPeanoOptArgs_def)
  have 4: "''-O3'' \<notin> set ((defaultPeanoOptArgs filenameIrIn filenameIrOut)[6 := ''-O2''])"
    using a b by (auto simp add: defaultPeanoOptArgs_def)
  show ?thesis using 1 2 3 4 makePeanoOptArgs_quoted by blast
qed

theorem makePeanoOptArgs_conflict_resolution_witness:
  "makePeanoOptArgs ''input.ll'' ''input.opt.ll'' (quoted ''-O2'')
     = Inr [''-vectorize-loops=false'', ''-vectorize-slp=false'',
            ''--two-entry-phi-node-folding-threshold=10'',
            ''-mandatory-inlining-before-opt=false'',
            ''-basic-aa-full-phi-analysis=true'',
            ''-basic-aa-max-lookup-search-depth=10'',
            ''-O2'', ''--inline-threshold=10'', ''--disable-builtin=memset'',
            ''-S'', ''input.ll'', ''-o'', ''input.opt.ll'']
   \<and> makePeanoOptArgs ''input.ll'' ''input.opt.ll'' (quoted ''-O1 -debug -O0 -time-passes'')
     = Inr [''-vectorize-loops=false'', ''-vectorize-slp=false'',
            ''--two-entry-phi-node-folding-threshold=10'',
            ''-mandatory-inlining-before-opt=false'',
            ''-basic-aa-full-phi-analysis=true'',
            ''-basic-aa-max-lookup-search-depth=10'',
            ''-O0'', ''--inline-threshold=10'', ''--disable-builtin=memset'',
            ''-S'', ''input.ll'', ''-o'', ''input.opt.ll'', ''-debug'', ''-time-passes'']"
  using makePeanoOptArgs_conflict_resolution [of "''input.ll''" "''input.opt.ll''"]
  by (simp add: defaultPeanoOptArgs_def istream_tokens_def isspace_def isOptLevelFlag_def)

section \<open>Properties of \<^verbatim>\<open>emitNpuInstructions\<close>\<close>

lemma hexDigits_length: "0 < k \<Longrightarrow> n < 16 ^ k \<Longrightarrow> length (hexDigits n) \<le> k"
proof (induction k arbitrary: n)
  case 0
  then show ?case by simp
next
  case (Suc k)
  show ?case
  proof (cases "n < 16")
    case True
    then show ?thesis using Suc.prems by (subst hexDigits.simps) simp
  next
    case False
    then have k: "0 < k" using Suc.prems by (cases k) auto
    have "n div 16 < 16 ^ k" using Suc.prems by (simp add: less_mult_imp_div_less mult.commute)
    then have "length (hexDigits (n div 16)) \<le> k" using Suc.IH k by simp
    then show ?thesis using False by (subst hexDigits.simps) simp
  qed
qed

lemma hexDigits_nonempty: "hexDigits n \<noteq> []"
  by (subst hexDigits.simps) simp

lemma hexDigit_in: "d < 16 \<Longrightarrow> ''0123456789ABCDEF'' ! d \<in> set ''0123456789ABCDEF''"
  by (rule nth_mem) simp

lemma hexDigits_chars: "set (hexDigits n) \<subseteq> set ''0123456789ABCDEF''"
proof (induction n rule: hexDigits.induct)
  case (1 n)
  show ?case
  proof (cases "n < 16")
    case True
    then show ?thesis using hexDigit_in [of n] by (subst hexDigits.simps) simp
  next
    case False
    have "n mod 16 < 16" by simp
    then have "''0123456789ABCDEF'' ! (n mod 16) \<in> set ''0123456789ABCDEF''"
      by (rule hexDigit_in)
    then show ?thesis using False 1 by (subst hexDigits.simps) simp
  qed
qed

lemma format08X_length: "length (format08X w) = 8"
proof -
  have "unat w < 2 ^ 32" using unsigned_less [of w, where ?'a = nat] by simp
  then have "unat w < 16 ^ 8" by simp
  then have "length (hexDigits (unat w)) \<le> 8" by (intro hexDigits_length) simp_all
  then show ?thesis by (simp add: format08X_def Let_def)
qed

lemma format08X_chars: "set (format08X w) \<subseteq> set ''0123456789ABCDEF''"
proof -
  have "set (replicate (8 - length (hexDigits (unat w))) CHR ''0'') \<subseteq> set ''0123456789ABCDEF''"
    by (auto simp: set_replicate_conv_if)
  then show ?thesis using hexDigits_chars [of "unat w"] by (simp add: format08X_def Let_def)
qed


lemma hexDigitValue_nth: "d < 16 \<Longrightarrow> hexDigitValue (''0123456789ABCDEF'' ! d) = d"
proof -
  assume "d < 16"
  then have "d = 0 \<or> d = 1 \<or> d = 2 \<or> d = 3 \<or> d = 4 \<or> d = 5 \<or> d = 6 \<or> d = 7 \<or> d = 8
      \<or> d = 9 \<or> d = 10 \<or> d = 11 \<or> d = 12 \<or> d = 13 \<or> d = 14 \<or> d = 15"
    by presburger
  then show ?thesis by (elim disjE) (simp_all add: hexDigitValue_def)
qed

lemma hexValue_snoc: "hexValue (s @ [c]) = 16 * hexValue s + hexDigitValue c"
  by (simp add: hexValue_def)

lemma hexValue_hexDigits: "hexValue (hexDigits n) = n"
proof (induction n rule: hexDigits.induct)
  case (1 n)
  show ?case
  proof (cases "n < 16")
    case True
    then show ?thesis
      using hexDigitValue_nth [of n] by (subst hexDigits.simps) (simp add: hexValue_def)
  next
    case False
    have "hexValue (hexDigits n) = 16 * hexValue (hexDigits (n div 16)) + hexDigitValue (''0123456789ABCDEF'' ! (n mod 16))"
      using False by (subst hexDigits.simps) (simp add: hexValue_snoc)
    also have "\<dots> = 16 * (n div 16) + n mod 16"
      using 1 False hexDigitValue_nth [of "n mod 16"] by simp
    finally show ?thesis by simp
  qed
qed

lemma hexValue_zeros: "hexValue (replicate k CHR ''0'' @ s) = hexValue s"
proof -
  have z: "hexDigitValue CHR ''0'' = 0" by (simp add: hexDigitValue_def)
  have "foldl (\<lambda>a c. 16 * a + hexDigitValue c) 0 (replicate k CHR ''0'') = 0"
    by (induction k) (simp_all add: z)
  then show ?thesis by (simp add: hexValue_def)
qed

lemma hexValue_format08X: "hexValue (format08X w) = unat w"
  by (simp add: format08X_def Let_def hexValue_zeros hexValue_hexDigits)

lemma emitLoop_in_range:
  "bound \<le> length ws \<Longrightarrow> bound \<le> INT_MAX \<Longrightarrow> i \<le> bound \<Longrightarrow>
     emitLoop ws bound i out =
       Inr (out @ concat (map (\<lambda>w. format08X w @ [CHR 0x0A]) (take (bound - i) (drop i ws))))"
proof (induction "bound - i" arbitrary: i out)
  case 0
  then show ?case by (subst emitLoop.simps) simp
next
  case (Suc k)
  then have lt: "i < bound" and len: "i < length ws" and im: "i \<noteq> INT_MAX" by auto
  have k: "k = bound - Suc i" using Suc.hyps(2) by simp
  have step: "emitLoop ws bound i out =
          emitLoop ws bound (Suc i) (out @ format08X (ws ! i) @ [CHR 0x0A])"
    using lt len im by (subst emitLoop.simps) (simp add: arrayRefAt_def)
  have d: "take (bound - i) (drop i ws) = ws ! i # take (bound - Suc i) (drop (Suc i) ws)"
    using lt len by (metis Cons_nth_drop_Suc Suc.hyps(2) k take_Suc_Cons)
  show ?case
    using Suc.hyps(1) [OF k Suc.prems(1) Suc.prems(2), of "out @ format08X (ws ! i) @ [CHR 0x0A]"] lt
    by (simp add: step d)
qed

lemma emitLoop_overflow:
  "bound \<le> length ws \<Longrightarrow> INT_MAX < bound \<Longrightarrow> i \<le> INT_MAX \<Longrightarrow>
     emitLoop ws bound i out = Inl SignedOverflow"
proof (induction "INT_MAX - i" arbitrary: i out)
  case 0
  then have "i = INT_MAX" by simp
  then show ?case using 0 by (subst emitLoop.simps) (simp add: arrayRefAt_def)
next
  case (Suc k)
  then have lt: "i < bound" and len: "i < length ws" and im: "i \<noteq> INT_MAX" by auto
  have k: "k = INT_MAX - Suc i" using Suc.hyps(2) by simp
  have step: "emitLoop ws bound i out =
          emitLoop ws bound (Suc i) (out @ format08X (ws ! i) @ [CHR 0x0A])"
    using lt len im by (subst emitLoop.simps) (simp add: arrayRefAt_def)
  have "Suc i \<le> INT_MAX" using Suc.hyps(2) by simp
  then show ?case
    using Suc.hyps(1) [OF k Suc.prems(1) Suc.prems(2)] by (simp add: step)
qed

lemma joinLines_last:
  "xs \<noteq> [] \<Longrightarrow> joinLines xs = concat (map (\<lambda>l. l @ [CHR 0x0A]) (butlast xs)) @ last xs"
  by (induction xs rule: joinLines.induct) simp_all

lemma npuInstructionsText_nonempty:
  assumes "ws \<noteq> []"
  shows "npuInstructionsText ws =
           (if length ws \<le> Suc INT_MAX then Inr (joinLines (map format08X ws))
            else Inl SignedOverflow)"
proof (cases "length ws \<le> Suc INT_MAX")
  case True
  have b: "sizeMinusOne (length ws) = length ws - 1" using assms by (simp add: sizeMinusOne_def)
  have "emitLoop ws (length ws - 1) 0 [] =
          Inr (concat (map (\<lambda>w. format08X w @ [CHR 0x0A]) (butlast ws)))"
    using emitLoop_in_range [of "length ws - 1" ws 0 "[]"] True by (simp add: butlast_conv_take)
  moreover have "joinLines (map format08X ws) =
      concat (map (\<lambda>w. format08X w @ [CHR 0x0A]) (butlast ws)) @ format08X (last ws)"
    using assms by (simp add: joinLines_last map_butlast [symmetric] last_map comp_def)
  ultimately show ?thesis
    using assms True by (simp add: npuInstructionsText_def b arrayRefBack_def)
next
  case False
  have b: "sizeMinusOne (length ws) = length ws - 1" using assms by (simp add: sizeMinusOne_def)
  have "emitLoop ws (length ws - 1) 0 [] = Inl SignedOverflow"
    using False by (intro emitLoop_overflow) simp_all
  then show ?thesis using False by (simp add: npuInstructionsText_def b)
qed

lemma npuInstructionsText_empty: "npuInstructionsText [] = Inl IndexOutOfBounds"
  by (simp add: npuInstructionsText_def sizeMinusOne_def arrayRefAt_def emitLoop.simps [of "[]"])

lemma joinLines_no_trailing:
  "xs \<noteq> [] \<Longrightarrow> last xs \<noteq> [] \<Longrightarrow> last (joinLines xs) = last (last xs)"
  by (simp add: joinLines_last)

text \<open>
  Claim C6, as stated, covers every non-empty sequence of words. The loop counts with an
  \<^verbatim>\<open>int\<close>: on a sequence of \<open>2 ^ 31 + 1\<close> words the counter reaches the largest
  \<^verbatim>\<open>int\<close> with one more word to write before the last, and the increment overflows.
\<close>

theorem emitNpuInstructions_int_counter_counterexample:
  "getNpuInstructions manyWords
     = Some (DenseUI32ResourceElementsAttr (Some (replicate (2 ^ 31 + 1) 0)))
   \<and> length (replicate (2 ^ 31 + 1) (0 :: 32 word)) = 2 ^ 31 + 1
   \<and> emitNpuInstructions (exampleWorld noEnv runsFine noParse) ''npu_instructions.txt''
          \<lparr>fsys = filesAt [], deviceOp = manyWords, trace = []\<rparr>
       = (Inl (Fault SignedOverflow), \<lparr>fsys = filesAt [], deviceOp = manyWords, trace = []\<rparr>)"
  by (simp add: emitNpuInstructions_def manyWords_def exampleWorld_def
        npuInstructionsText_nonempty INT_MAX_def)

text \<open>
  Claim C6, amended. When the device module's \<^verbatim>\<open>npu_instructions\<close> attribute holds a
  non-empty sequence of at most \<open>2 ^ 31\<close> 32-bit words and the output file can be
  opened, \<^verbatim>\<open>emitNpuInstructions\<close> succeeds and the file holds the words in order, each
  as exactly eight characters that are upper-case hexadecimal digits and read back as the
  word (so short values are padded with zeros), with one newline after every word but the
  last and none at the end.
\<close>

theorem emitNpuInstructions_hex_dump:
  assumes "getNpuInstructions (deviceOp s) = Some (DenseUI32ResourceElementsAttr (Some ws))"
    and "ws \<noteq> []"
    and "length ws \<le> 2 ^ 31"
    and "openOutputFile w (fsys s) outputNPU"
  shows "emitNpuInstructions w outputNPU s =
           (Inr (), s\<lparr>fsys := (fsys s)(outputNPU \<mapsto> Regular (joinLines (map format08X ws)))\<rparr>)
         \<and> joinLines (map format08X ws) =
             concat (map (\<lambda>x. format08X x @ [CHR 0x0A]) (butlast ws)) @ format08X (last ws)
         \<and> last (joinLines (map format08X ws)) \<noteq> CHR 0x0A
         \<and> (\<forall>x. length (format08X x) = 8
                \<and> set (format08X x) \<subseteq> set ''0123456789ABCDEF''
                \<and> hexValue (format08X x) = unat x)"
proof -
  have 1: "emitNpuInstructions w outputNPU s =
           (Inr (), s\<lparr>fsys := (fsys s)(outputNPU \<mapsto> Regular (joinLines (map format08X ws)))\<rparr>)"
    using assms by (simp add: emitNpuInstructions_def npuInstructionsText_nonempty INT_MAX_def)
  have 2: "joinLines (map format08X ws) =
             concat (map (\<lambda>x. format08X x @ [CHR 0x0A]) (butlast ws)) @ format08X (last ws)"
    using assms(2) by (simp add: joinLines_last map_butlast [symmetric] last_map comp_def)
  have ne: "format08X (last ws) \<noteq> []" using format08X_length [of "last ws"] by auto
  have "last (format08X (last ws)) \<in> set ''0123456789ABCDEF''"
    using format08X_chars [of "last ws"] last_in_set [OF ne] by blast
  then have "last (format08X (last ws)) \<noteq> CHR 0x0A" by auto
  then have 3: "last (joinLines (map format08X ws)) \<noteq> CHR 0x0A"
    using ne by (simp add: 2)
  show ?thesis
    using 1 2 3 format08X_length format08X_chars hexValue_format08X by blast
qed

text \<open>The three words 0x1, 0x2, 0x3 give \<^verbatim>\<open>00000001\n00000002\n00000003\<close>.\<close>

lemma replicate7: "replicate 7 c = [c, c, c, c, c, c, c]"
  by (simp add: numeral_eq_Suc)

lemma format08X_examples:
  "format08X 1 = ''00000001''" "format08X 2 = ''00000002''" "format08X 3 = ''00000003''"
  by (simp_all add: format08X_def hexDigits.simps [of "Suc 0"] hexDigits.simps [of 2]
        hexDigits.simps [of 3] replicate7)

theorem emitNpuInstructions_hex_dump_witness:
  "fst (emitNpuInstructions (exampleWorld noEnv runsFine noParse) ''npu_instructions.txt''
          \<lparr>fsys = filesAt [], deviceOp = threeWords, trace = []\<rparr>) = Inr ()
   \<and> fsys (snd (emitNpuInstructions (exampleWorld noEnv runsFine noParse) ''npu_instructions.txt''
          \<lparr>fsys = filesAt [], deviceOp = threeWords, trace = []\<rparr>)) ''npu_instructions.txt''
       = Some (Regular (''00000001'' @ [CHR 0x0A] @ ''00000002'' @ [CHR 0x0A] @ ''00000003''))"
  using emitNpuInstructions_hex_dump
          [of "\<lparr>fsys = filesAt [], deviceOp = threeWords, trace = []\<rparr>" "[0x1, 0x2, 0x3]"
              "exampleWorld noEnv runsFine noParse" "''npu_instructions.txt''"]
  by (simp add: threeWords_def exampleWorld_def format08X_examples)

text \<open>
  Claim C9. \<^verbatim>\<open>emitNpuInstructions\<close> ends in an array read outside the array (in the
  loop up to \<^verbatim>\<open>size() - 1\<close> or in the final \<^verbatim>\<open>back()\<close>) exactly when the word
  sequence is empty. On the empty sequence \<^verbatim>\<open>back()\<close> is out of range, and so is the
  loop's first read, since \<^verbatim>\<open>size() - 1\<close> wraps around. On a non-empty sequence every
  read is in range; the text is produced whenever the sequence has at most \<open>2 ^ 31\<close>
  words, and beyond that the run ends in the overflow of the counter, not in a read.
\<close>

theorem emitNpuInstructions_in_bounds_iff_nonempty:
  "(npuInstructionsText ws = Inl IndexOutOfBounds) = (ws = [])
   \<and> (ws \<noteq> [] \<and> length ws \<le> 2 ^ 31 \<longrightarrow> (\<exists>out. npuInstructionsText ws = Inr out))
   \<and> (ws \<noteq> [] \<and> 2 ^ 31 < length ws \<longrightarrow> npuInstructionsText ws = Inl SignedOverflow)
   \<and> arrayRefBack ([] :: 32 word list) = None
   \<and> arrayRefAt ([] :: 32 word list) 0 = None
   \<and> sizeMinusOne (length ([] :: 32 word list)) = 2 ^ 64 - 1
   \<and> ((getNpuInstructions (deviceOp s) = Some (DenseUI32ResourceElementsAttr (Some ws))
        \<and> openOutputFile w (fsys s) outputNPU)
       \<longrightarrow> (fst (emitNpuInstructions w outputNPU s) = Inl (Fault IndexOutOfBounds)) = (ws = []))"
proof -
  have 1: "(npuInstructionsText ws = Inl IndexOutOfBounds) = (ws = [])"
    by (cases "ws = []") (simp_all add: npuInstructionsText_empty npuInstructionsText_nonempty)
  have 2: "(getNpuInstructions (deviceOp s) = Some (DenseUI32ResourceElementsAttr (Some ws))
        \<and> openOutputFile w (fsys s) outputNPU)
       \<longrightarrow> (fst (emitNpuInstructions w outputNPU s) = Inl (Fault IndexOutOfBounds)) = (ws = [])"
    by (cases "ws = []")
       (auto simp: emitNpuInstructions_def npuInstructionsText_empty npuInstructionsText_nonempty)
  have 3: "ws \<noteq> [] \<and> length ws \<le> 2 ^ 31 \<longrightarrow> (\<exists>out. npuInstructionsText ws = Inr out)"
    by (simp add: npuInstructionsText_nonempty INT_MAX_def)
  have 4: "ws \<noteq> [] \<and> 2 ^ 31 < length ws \<longrightarrow> npuInstructionsText ws = Inl SignedOverflow"
    by (simp add: npuInstructionsText_nonempty INT_MAX_def)
  show ?thesis using 1 2 3 4 by (simp add: arrayRefBack_def arrayRefAt_def sizeMinusOne_def)
qed

theorem emitNpuInstructions_in_bounds_iff_nonempty_witness:
  "emitNpuInstructions (exampleWorld noEnv runsFine noParse) ''npu_instructions.txt''
          \<lparr>fsys = filesAt [], deviceOp = noWords, trace = []\<rparr>
     = (Inl (Fault IndexOutOfBounds), \<lparr>fsys = filesAt [], deviceOp = noWords, trace = []\<rparr>)
   \<and> npuInstructionsText [0x1, 0x2, 0x3] \<noteq> Inl IndexOutOfBounds
   \<and> (\<exists>out. npuInstructionsText [0x1, 0x2, 0x3] = Inr out)"
  using emitNpuInstructions_in_bounds_iff_nonempty
          [of "[]" "\<lparr>fsys = filesAt [], deviceOp = noWords, trace = []\<rparr>"
              "exampleWorld noEnv runsFine noParse" "''npu_instructions.txt''"]
        emitNpuInstructions_in_bounds_iff_nonempty
          [of "[0x1, 0x2, 0x3]" "\<lparr>fsys = filesAt [], deviceOp = noWords, trace = []\<rparr>"
              "exampleWorld noEnv runsFine noParse" "''npu_instructions.txt''"]
  by (simp add: noWords_def exampleWorld_def emitNpuInstructions_def
        npuInstructionsText_empty)

section \<open>Properties of the toolchain locator\<close>

lemma getTargetDir_None: "(getTargetDir v = None) = (v \<noteq> ''npu1'' \<and> v \<noteq> ''npu4'')"
  by (simp add: getTargetDir_def)

text \<open>
  Claim C10. \<^verbatim>\<open>getTargetDir\<close> fails exactly for the identifiers other than
  \<^verbatim>\<open>npu1\<close> and \<^verbatim>\<open>npu4\<close>. \<^verbatim>\<open>makeChessEnv\<close> dereferences its result first
  thing, so it ends in the dereference of a failure exactly for those identifiers;
  \<^verbatim>\<open>findVitis\<close> does so exactly when, in addition, it gets as far as the dereference
  (the directory is located, the license block falls through and \<^verbatim>\<open>aietools\<close> exists).
\<close>

theorem getTargetDir_deref_defined_iff_known_npu:
  "(getTargetDir npuVersion = None) = (npuVersion \<noteq> ''npu1'' \<and> npuVersion \<noteq> ''npu4'')
   \<and> (makeChessEnv w vitisDir npuVersion = Inl (Fault DerefFailure))
       = (npuVersion \<noteq> ''npu1'' \<and> npuVersion \<noteq> ''npu4'')
   \<and> (fst (findVitis w f vitisDirOpt npuVersion) = Inl (Fault DerefFailure))
       = ((\<exists>dir. locateVitisDir w vitisDirOpt = Some dir \<and> checkLicense w f = None
                 \<and> fs_exists f (path_append dir ''aietools'') = Some True)
          \<and> npuVersion \<noteq> ''npu1'' \<and> npuVersion \<noteq> ''npu4'')"
proof -
  have 2: "(makeChessEnv w vitisDir npuVersion = Inl (Fault DerefFailure))
       = (npuVersion \<noteq> ''npu1'' \<and> npuVersion \<noteq> ''npu4'')"
    by (auto simp: makeChessEnv_def getTargetDir_def Let_def split: option.splits)
  have 3: "(fst (findVitis w f vitisDirOpt npuVersion) = Inl (Fault DerefFailure))
       = ((\<exists>dir. locateVitisDir w vitisDirOpt = Some dir \<and> checkLicense w f = None
                 \<and> fs_exists f (path_append dir ''aietools'') = Some True)
          \<and> npuVersion \<noteq> ''npu1'' \<and> npuVersion \<noteq> ''npu4'')"
    by (auto simp: findVitis_def getTargetDir_def Let_def checkLicense_def
             split: option.splits if_splits)
  show ?thesis using 2 3 by (simp add: getTargetDir_None)
qed

theorem getTargetDir_deref_defined_iff_known_npu_witness:
  "getTargetDir ''npu2'' = None
   \<and> getTargetDir ''npu1'' = Some ''target_aie_ml''
   \<and> makeChessEnv (exampleWorld licensedEnv runsFine noParse) ''/vitis'' ''npu2''
       = Inl (Fault DerefFailure)
   \<and> findVitis (exampleWorld licensedEnv runsFine noParse) (filesAt vitisFiles) (Some ''/vitis'')
        ''npu2'' = (Inl (Fault DerefFailure), Some ''/vitis'')
   \<and> findVitis (exampleWorld licensedEnv runsFine noParse) (filesAt vitisFiles) (Some ''/vitis'')
        ''npu1'' = (Inr ''/vitis'', Some ''/vitis'')"
  using getTargetDir_deref_defined_iff_known_npu
          [of "''npu2''" "exampleWorld licensedEnv runsFine noParse" "''/vitis''"
              "filesAt vitisFiles" "Some ''/vitis''"]
  by (simp add: getTargetDir_def findVitis_def locateVitisDir_def checkLicense_def
        exampleWorld_def licensedEnv_def filesAt_def vitisFiles_def fs_exists_def
        path_append_def pjoin_def is_absolute_def)

text \<open>
  Claim C2, as stated, asks that a license file named by either variable exists. A file
  named by \<^verbatim>\<open>XILINXD_LICENSE_FILE\<close> is not looked for: with that variable naming a file
  that is not on disk, resolution succeeds.
\<close>

theorem findVitis_unchecked_license_counterexample:
  "getenv (exampleWorld licensedEnv runsFine noParse) ''XILINXD_LICENSE_FILE''
     = Some ''/opt/Xilinx.lic''
   \<and> fs_exists (filesAt vitisFiles) ''/opt/Xilinx.lic'' = Some False
   \<and> findVitis (exampleWorld licensedEnv runsFine noParse) (filesAt vitisFiles) (Some ''/vitis'')
        ''npu1'' = (Inr ''/vitis'', Some ''/vitis'')"
  by (simp add: getTargetDir_def findVitis_def locateVitisDir_def checkLicense_def
        exampleWorld_def licensedEnv_def filesAt_def vitisFiles_def fs_exists_def
        path_append_def pjoin_def is_absolute_def)

text \<open>
  Claim C2, amended. When neither license variable is set, \<^verbatim>\<open>findVitis\<close> returns a
  failure. When \<^verbatim>\<open>XILINXD_LICENSE_FILE\<close> is unset and \<^verbatim>\<open>LM_LICENSE_FILE\<close> names
  a file, \<^verbatim>\<open>findVitis\<close> succeeds only if that file exists, and returns a failure when
  the file system answers that it does not. In both cases the failure is the license one
  whenever the toolchain directory itself was located, and the toolchain-not-found one
  otherwise. When the file system cannot answer for the named file, the existence check
  throws and \<^verbatim>\<open>findVitis\<close> does not return.
\<close>

theorem findVitis_license_required:
  "(getenv w ''XILINXD_LICENSE_FILE'' = None \<and> getenv w ''LM_LICENSE_FILE'' = None
      \<longrightarrow> fst (findVitis w f vitisDir npuVersion)
            = (if locateVitisDir w vitisDir = None then Inl ToolchainNotFound
               else Inl LicenseNotSet))
   \<and> (getenv w ''XILINXD_LICENSE_FILE'' = None \<and> getenv w ''LM_LICENSE_FILE'' = Some licenseFile
        \<and> fs_exists f licenseFile = Some False
      \<longrightarrow> fst (findVitis w f vitisDir npuVersion)
            = (if locateVitisDir w vitisDir = None then Inl ToolchainNotFound
               else Inl (LicenseFileMissing licenseFile)))
   \<and> (getenv w ''XILINXD_LICENSE_FILE'' = None \<and> getenv w ''LM_LICENSE_FILE'' = Some licenseFile
        \<and> fs_exists f licenseFile = None
      \<longrightarrow> fst (findVitis w f vitisDir npuVersion)
            = (if locateVitisDir w vitisDir = None then Inl ToolchainNotFound
               else Inl (Fault UncaughtException)))
   \<and> (getenv w ''XILINXD_LICENSE_FILE'' = None \<and> getenv w ''LM_LICENSE_FILE'' = Some licenseFile
        \<and> \<not> isl (fst (findVitis w f vitisDir npuVersion))
      \<longrightarrow> fs_exists f licenseFile = Some True \<and> f licenseFile \<noteq> None)"
proof -
  have 1: "getenv w ''XILINXD_LICENSE_FILE'' = None \<and> getenv w ''LM_LICENSE_FILE'' = None
      \<longrightarrow> fst (findVitis w f vitisDir npuVersion)
            = (if locateVitisDir w vitisDir = None then Inl ToolchainNotFound
               else Inl LicenseNotSet)"
    by (auto simp: findVitis_def checkLicense_def split: option.splits)
  have 2: "getenv w ''XILINXD_LICENSE_FILE'' = None \<and> getenv w ''LM_LICENSE_FILE'' = Some licenseFile
        \<and> fs_exists f licenseFile = Some False
      \<longrightarrow> fst (findVitis w f vitisDir npuVersion)
            = (if locateVitisDir w vitisDir = None then Inl ToolchainNotFound
               else Inl (LicenseFileMissing licenseFile))"
    by (auto simp: findVitis_def checkLicense_def split: option.splits)
  have 3: "getenv w ''XILINXD_LICENSE_FILE'' = None \<and> getenv w ''LM_LICENSE_FILE'' = Some licenseFile
        \<and> fs_exists f licenseFile = None
      \<longrightarrow> fst (findVitis w f vitisDir npuVersion)
            = (if locateVitisDir w vitisDir = None then Inl ToolchainNotFound
               else Inl (Fault UncaughtException))"
    by (auto simp: findVitis_def checkLicense_def split: option.splits)
  have 4: "getenv w ''XILINXD_LICENSE_FILE'' = None \<and> getenv w ''LM_LICENSE_FILE'' = Some licenseFile
        \<and> \<not> isl (fst (findVitis w f vitisDir npuVersion))
      \<longrightarrow> fs_exists f licenseFile = Some True \<and> f licenseFile \<noteq> None"
  proof (cases "fs_exists f licenseFile")
    case None
    then show ?thesis using 3 by (auto split: if_splits)
  next
    case (Some found)
    then show ?thesis
      using 2 by (cases found) (auto simp: fs_exists_def split: option.splits if_splits)
  qed
  show ?thesis using 1 2 3 4 by blast
qed

theorem findVitis_license_required_witness:
  "findVitis (exampleWorld noEnv runsFine noParse) (filesAt vitisFiles) (Some ''/vitis'') ''npu1''
     = (Inl LicenseNotSet, Some ''/vitis'')
   \<and> findVitis (exampleWorld fallbackLicenseEnv runsFine noParse) (filesAt vitisFiles)
        (Some ''/vitis'') ''npu1''
     = (Inl (LicenseFileMissing ''/opt/Xilinx.lic''), Some ''/vitis'')
   \<and> findVitis (exampleWorld fallbackLicenseEnv runsFine noParse)
        ((filesAt vitisFiles)(''/opt/Xilinx.lic'' \<mapsto> StatusError)) (Some ''/vitis'') ''npu1''
     = (Inl (Fault UncaughtException), Some ''/vitis'')
   \<and> findVitis (exampleWorld fallbackLicenseEnv runsFine noParse)
        (filesAt (''/opt/Xilinx.lic'' # vitisFiles)) (Some ''/vitis'') ''npu1''
     = (Inr ''/vitis'', Some ''/vitis'')"
  using findVitis_license_required
          [of "exampleWorld noEnv runsFine noParse" "filesAt vitisFiles" "Some ''/vitis''"
              "''npu1''" "''/opt/Xilinx.lic''"]
        findVitis_license_required
          [of "exampleWorld fallbackLicenseEnv runsFine noParse" "filesAt vitisFiles"
              "Some ''/vitis''" "''npu1''" "''/opt/Xilinx.lic''"]
  by (simp add: getTargetDir_def findVitis_def locateVitisDir_def checkLicense_def
        exampleWorld_def noEnv_def fallbackLicenseEnv_def filesAt_def vitisFiles_def
        fs_exists_def path_append_def pjoin_def is_absolute_def)

section \<open>Properties of the kernel descriptor\<close>

text \<open>
  Claim C3, as stated, counts five host buffer-object pointers among the nine arguments.
  \<^verbatim>\<open>makeKernelJSON\<close> lists six (\<^verbatim>\<open>bo0\<close> to \<^verbatim>\<open>bo5\<close>).
\<close>

theorem makeKernelJSON_five_host_pointers_counterexample:
  "length (filter (\<lambda>a. stringField ''memory-connection'' a = Some ''HOST'')
             (argumentList (makeKernelJSON ''kernel'' ''0x101'' ''instance''))) = 6"
  by (simp add: makeKernelJSON_def argumentList_def stringField_def kernelArgument_def
        getAsObject_def getArray_def)

text \<open>
  Claim C3, amended. For every kernel name, id and instance name the document written to
  \<^verbatim>\<open>kernels.json\<close> has exactly one kernel entry, and its argument list has nine
  entries: the scalar \<^verbatim>\<open>opcode\<close> at offset 0x00, the instruction-buffer pointer
  \<^verbatim>\<open>instr\<close> (global, SRAM) at 0x08, the scalar instruction count \<^verbatim>\<open>ninstr\<close> at
  0x10, and six host buffer-object pointers \<^verbatim>\<open>bo0\<close> to \<^verbatim>\<open>bo5\<close> at 0x14, 0x1c,
  0x24, 0x2c, 0x34 and 0x3c, eight bytes apart.
\<close>

theorem makeKernelJSON_argument_layout:
  "kernelEntries (kernelsData name kernelId instanceName) = [makeKernelJSON name kernelId instanceName]
   \<and> map argumentRow (argumentList (makeKernelJSON name kernelId instanceName)) =
       [(Some ''opcode'', Some ''SCALAR'', None, Some ''0x00''),
        (Some ''instr'', Some ''GLOBAL'', Some ''SRAM'', Some ''0x08''),
        (Some ''ninstr'', Some ''SCALAR'', None, Some ''0x10''),
        (Some ''bo0'', Some ''GLOBAL'', Some ''HOST'', Some ''0x14''),
        (Some ''bo1'', Some ''GLOBAL'', Some ''HOST'', Some ''0x1c''),
        (Some ''bo2'', Some ''GLOBAL'', Some ''HOST'', Some ''0x24''),
        (Some ''bo3'', Some ''GLOBAL'', Some ''HOST'', Some ''0x2c''),
        (Some ''bo4'', Some ''GLOBAL'', Some ''HOST'', Some ''0x34''),
        (Some ''bo5'', Some ''GLOBAL'', Some ''HOST'', Some ''0x3c'')]
   \<and> length (argumentList (makeKernelJSON name kernelId instanceName)) = 9
   \<and> map (\<lambda>a. map_option offsetValue (stringField ''offset'' a))
         (argumentList (makeKernelJSON name kernelId instanceName)) =
       [Some 0, Some 8, Some 16, Some 20, Some 28, Some 36, Some 44, Some 52, Some 60]
   \<and> stringField ''name'' (makeKernelJSON name kernelId instanceName) = Some name"
proof -
  have 1: "kernelEntries (kernelsData name kernelId instanceName) = [makeKernelJSON name kernelId instanceName]"
    by (simp add: kernelEntries_def kernelsData_def getAsObject_def getObject_def getArray_def)
  have args: "argumentList (makeKernelJSON name kernelId instanceName) =
         [kernelArgument [(''name'', ''opcode''), (''address-qualifier'', ''SCALAR''),
                          (''type'', ''uint64_t''), (''offset'', ''0x00'')],
          kernelArgument [(''name'', ''instr''), (''memory-connection'', ''SRAM''),
                          (''address-qualifier'', ''GLOBAL''), (''type'', ''char *''),
                          (''offset'', ''0x08'')],
          kernelArgument [(''name'', ''ninstr''), (''address-qualifier'', ''SCALAR''),
                          (''type'', ''uint32_t''), (''offset'', ''0x10'')],
          kernelArgument [(''name'', ''bo0''), (''memory-connection'', ''HOST''),
                          (''address-qualifier'', ''GLOBAL''), (''type'', ''void*''),
                          (''offset'', ''0x14'')],
          kernelArgument [(''name'', ''bo1''), (''memory-connection'', ''HOST''),
                          (''address-qualifier'', ''GLOBAL''), (''type'', ''void*''),
                          (''offset'', ''0x1c'')],
          kernelArgument [(''name'', ''bo2''), (''memory-connection'', ''HOST''),
                          (''address-qualifier'', ''GLOBAL''), (''type'', ''void*''),
                          (''offset'', ''0x24'')],
          kernelArgument [(''name'', ''bo3''), (''memory-connection'', ''HOST''),
                          (''address-qualifier'', ''GLOBAL''), (''type'', ''void*''),
                          (''offset'', ''0x2c'')],
          kernelArgument [(''name'', ''bo4''), (''memory-connection'', ''HOST''),
                          (''address-qualifier'', ''GLOBAL''), (''type'', ''void*''),
                          (''offset'', ''0x34'')],
          kernelArgument [(''name'', ''bo5''), (''memory-connection'', ''HOST''),
                          (''address-qualifier'', ''GLOBAL''), (''type'', ''void*''),
                          (''offset'', ''0x3c'')]]"
    by (simp add: argumentList_def makeKernelJSON_def getAsObject_def getArray_def)
  have 2: "map argumentRow (argumentList (makeKernelJSON name kernelId instanceName)) =
       [(Some ''opcode'', Some ''SCALAR'', None, Some ''0x00''),
        (Some ''instr'', Some ''GLOBAL'', Some ''SRAM'', Some ''0x08''),
        (Some ''ninstr'', Some ''SCALAR'', None, Some ''0x10''),
        (Some ''bo0'', Some ''GLOBAL'', Some ''HOST'', Some ''0x14''),
        (Some ''bo1'', Some ''GLOBAL'', Some ''HOST'', Some ''0x1c''),
        (Some ''bo2'', Some ''GLOBAL'', Some ''HOST'', Some ''0x24''),
        (Some ''bo3'', Some ''GLOBAL'', Some ''HOST'', Some ''0x2c''),
        (Some ''bo4'', Some ''GLOBAL'', Some ''HOST'', Some ''0x34''),
        (Some ''bo5'', Some ''GLOBAL'', Some ''HOST'', Some ''0x3c'')]"
    unfolding args
    by (simp add: argumentRow_def stringField_def kernelArgument_def getAsObject_def)
  have 3: "length (argumentList (makeKernelJSON name kernelId instanceName)) = 9"
    unfolding args by simp
  have 4: "map (\<lambda>a. map_option offsetValue (stringField ''offset'' a))
         (argumentList (makeKernelJSON name kernelId instanceName)) =
       [Some 0, Some 8, Some 16, Some 20, Some 28, Some 36, Some 44, Some 52, Some 60]"
    unfolding args
    by (simp add: stringField_def kernelArgument_def getAsObject_def offsetValue_def
          hexDigitValue_def)
  have 5: "stringField ''name'' (makeKernelJSON name kernelId instanceName) = Some name"
    by (simp add: stringField_def makeKernelJSON_def getAsObject_def)
  show ?thesis using 1 2 3 4 5 by simp
qed

theorem makeKernelJSON_argument_layout_witness:
  "length (argumentList (makeKernelJSON ''kernel'' ''0x101'' ''instance'')) = 9
   \<and> map (\<lambda>a. map_option offsetValue (stringField ''offset'' a))
         (argumentList (makeKernelJSON ''kernel'' ''0x101'' ''instance'')) =
       [Some 0, Some 8, Some 16, Some 20, Some 28, Some 36, Some 44, Some 52, Some 60]
   \<and> kernelEntries (kernelsData ''kernel'' ''0x101'' ''instance'')
       = [makeKernelJSON ''kernel'' ''0x101'' ''instance'']"
  using makeKernelJSON_argument_layout [of "''kernel''" "''0x101''" "''instance''"]
  by blast

section \<open>Properties of \<^verbatim>\<open>runTool\<close>\<close>

lemma runTool_program_missing:
  "fs_exists (fsys s) program = Some False \<Longrightarrow>
     runTool w program args verbose env s = (Inl (ProgramNotFound program), s)"
  by (simp add: runTool_def)

lemma runTool_exit_code:
  assumes "fs_exists (fsys s) program = Some True"
    and "createTemporaryFile w (fsys s) = Some tmp"
    and "ExecuteAndWait w program (program # args) (case env of None \<Rightarrow> [] | Some e \<Rightarrow> e) tmp
           ((fsys s)(tmp \<mapsto> Regular [])) = (result, errMsg, f')"
    and "f' tmp = Some (Regular out)"
  shows "(fst (runTool w program args verbose env s) = Inr ()) = (result = 0)
         \<and> (result \<noteq> 0 \<longrightarrow>
              fst (runTool w program args verbose env s) = Inl (ToolFailed program errMsg out))"
  using assms by (simp add: runTool_def Let_def)

lemma runTool_trace:
  "trace (snd (runTool w program args verbose env s)) = trace s
   \<or> trace (snd (runTool w program args verbose env s))
        = trace s @ [Exec program args (case env of None \<Rightarrow> [] | Some e \<Rightarrow> e)]"
  by (auto simp: runTool_def Let_def split: option.splits prod.splits entry.splits)

lemma runTool_success:
  "fst (runTool w program args verbose env s) = Inr () \<Longrightarrow>
     trace (snd (runTool w program args verbose env s))
        = trace s @ [Exec program args (case env of None \<Rightarrow> [] | Some e \<Rightarrow> e)]
     \<and> deviceOp (snd (runTool w program args verbose env s)) = deviceOp s"
  by (auto simp: runTool_def Let_def split: option.splits prod.splits entry.splits if_splits)

lemma runTool_outcome:
  "runTool w program args verbose env s = (r, s') \<Longrightarrow>
     deviceOp s' = deviceOp s
     \<and> (r = Inr () \<longrightarrow>
          trace s' = trace s @ [Exec program args (case env of None \<Rightarrow> [] | Some e \<Rightarrow> e)])"
  by (auto simp: runTool_def Let_def split: option.splits prod.splits entry.splits if_splits)

text \<open>
  Claim C5 says that \<^verbatim>\<open>runTool\<close> returns success whenever the program ran and exited
  with code 0. Here the program exists, the temporary file is created and the program
  exits with code 0, but the file holding its output is gone when \<^verbatim>\<open>runTool\<close> reads
  it back: the program has been run, and \<^verbatim>\<open>runTool\<close> does not return success.
\<close>

theorem runTool_unreadable_log_aborts:
  "fst (removesLog ''/usr/bin/tool'' [''/usr/bin/tool'', ''-v''] [] ''/tmp/tmpRunToolLogging''
         ((fsys toolOnly)(''/tmp/tmpRunToolLogging'' \<mapsto> Regular []))) = 0
   \<and> fst (runTool (exampleWorld noEnv removesLog noParse) ''/usr/bin/tool'' [''-v''] False None
            toolOnly) = Inl (Fault NullCString)
   \<and> trace (snd (runTool (exampleWorld noEnv removesLog noParse) ''/usr/bin/tool'' [''-v''] False
                    None toolOnly)) = [Exec ''/usr/bin/tool'' [''-v''] []]"
  by (simp add: runTool_def exampleWorld_def removesLog_def toolOnly_def filesAt_def
        fs_exists_def)

section \<open>Properties of the merge with a base container\<close>


lemma map_of_assign_other: "k' \<noteq> k \<Longrightarrow> map_of (assign k v kvs) k' = map_of kvs k'"
  by (induction kvs) auto

















section \<open>Properties of \<^verbatim>\<open>generateCoreElfFiles\<close>\<close>

lemma keepsDevice_ret: "keepsDevice (ret x)"
  by (simp add: keepsDevice_def ret_def)

lemma keepsDevice_fail: "keepsDevice (fail e)"
  by (simp add: keepsDevice_def fail_def)

lemma keepsDevice_andThen:
  "keepsDevice m \<Longrightarrow> (\<And>x. keepsDevice (f x)) \<Longrightarrow> keepsDevice (andThen m f)"
  unfolding keepsDevice_def andThen_def
  by (auto split: prod.splits sum.splits) (metis snd_conv)+

lemma keepsDevice_dumpStrToDisk: "keepsDevice (dumpStrToDisk w payload outputPath)"
  by (simp add: keepsDevice_def dumpStrToDisk_def)

lemma keepsDevice_runTool: "keepsDevice (runTool w program args verbose env)"
  by (auto simp: keepsDevice_def runTool_def Let_def split: option.splits prod.splits entry.splits)

lemma keepsDevice_emitTranslation: "keepsDevice (emitTranslation w outPath translate c r what)"
  by (auto simp: keepsDevice_def emitTranslation_def split: option.splits)

lemma keepsDevice_assembleFileUsingChess:
  "keepsDevice (assembleFileUsingChess w inputFile outputFile extraArgs tempDir vitisDir npuVersion verbose)"
  by (auto simp: assembleFileUsingChess_def keepsDevice_fail keepsDevice_runTool
           split: sum.splits prod.splits)

lemma keepsDevice_assembleStringUsingChess:
  "keepsDevice (assembleStringUsingChess w a b c d e f g h i)"
  unfolding assembleStringUsingChess_def assembleStringUsing_def Let_def
  by (intro keepsDevice_andThen keepsDevice_dumpStrToDisk keepsDevice_assembleFileUsingChess
        keepsDevice_ret)

lemma keepsDevice_cases:
  "(\<And>s. deviceOp (snd (m s)) = deviceOp s) \<Longrightarrow> keepsDevice m"
  by (simp add: keepsDevice_def)

lemma keepsDeviceD: "keepsDevice m \<Longrightarrow> deviceOp (snd (m s)) = deviceOp s"
  by (simp add: keepsDevice_def)

lemma keepsDevice_ukernelObject:
  "keepsDevice (ukernelObject w tempDir verbose npuVersion uk vitisDir)"
proof (rule keepsDevice_cases)
  fix s :: state
  obtain a b c where uk: "uk = (a, b, c)" by (cases uk) auto
  show "deviceOp (snd (ukernelObject w tempDir verbose npuVersion uk vitisDir s)) = deviceOp s"
    using keepsDeviceD [OF keepsDevice_andThen
            [OF keepsDevice_assembleStringUsingChess, of "\<lambda>p. ret (p, vd)" for vd,
             OF keepsDevice_ret]]
    by (auto simp: ukernelObject_def uk Let_def split: prod.splits sum.splits option.splits)
qed

lemma keepsDevice_linkCoreWithPeano:
  "keepsDevice (linkCoreWithPeano w objFile tempDir targetArch verbose peanoDir c r elfFileName mm)"
  unfolding linkCoreWithPeano_def Let_def
  by (intro keepsDevice_andThen keepsDevice_emitTranslation keepsDevice_runTool)

lemma keepsDevice_linkCoreWithChess:
  "keepsDevice (linkCoreWithChess w objFile tempDir verbose npuVersion c r elfFileName mm vitisDir)"
proof (rule keepsDevice_cases)
  fix s :: state
  have k: "keepsDevice (andThen
            (case fs_exists (fsys s) (path_append (current_path w) ''chess_intrinsic_wrapper.o'') of
               None \<Rightarrow> fail (Fault UncaughtException)
             | Some found \<Rightarrow>
                 if \<not> found
                 then assembleStringUsingChess w (chess_intrinsic_wrapper_cpp w)
                        ''chess_intrinsic_wrapper.cpp'' ''chess_intrinsic_wrapper.o'' tempDir []
                        tempDir d npuVersion verbose
                 else ret (path_append (current_path w) ''chess_intrinsic_wrapper.o''))
            (\<lambda>chessIntrinsicsObjFile.
               let bcfPath = path_append tempDir (elfFileName @ ''.bcf'') in
               andThen (emitTranslation w bcfPath (AIETranslateToBCF w) c r ''BCF'')
                 (\<lambda>_. case makeChessArgs d tempDir npuVersion verbose of
                         Inl e \<Rightarrow> fail e
                       | Inr (xChessCCExe, flags) \<Rightarrow>
                           let chessArgs = flags @ [objFile, chessIntrinsicsObjFile]
                                 @ (case mm of None \<Rightarrow> [] | Some mm \<Rightarrow> [mm])
                                 @ [''+l'', bcfPath, ''-o'', path_append tempDir elfFileName]
                           in (case makeChessEnv w d npuVersion of
                                 Inl e \<Rightarrow> fail e
                               | Inr env \<Rightarrow>
                                   andThen (runTool w xChessCCExe chessArgs verbose (Some env))
                                     (\<lambda>_. ret vd)))))" for d vd
    unfolding Let_def
    by (intro keepsDevice_andThen)
       (auto simp: keepsDevice_assembleStringUsingChess keepsDevice_ret keepsDevice_fail
          keepsDevice_emitTranslation keepsDevice_runTool
          intro!: keepsDevice_andThen split: sum.splits prod.splits option.splits)
  show "deviceOp (snd (linkCoreWithChess w objFile tempDir verbose npuVersion c r elfFileName mm
                        vitisDir s)) = deviceOp s"
    using keepsDeviceD [OF k]
    by (auto simp: linkCoreWithChess_def Let_def split: prod.splits sum.splits)
qed


lemma andThen_device:
  "(\<And>x. keepsDevice (f x)) \<Longrightarrow> deviceOp (snd (andThen m f s)) = deviceOp (snd (m s))"
  by (auto simp: andThen_def keepsDevice_def split: prod.splits sum.splits)

lemma nameTile_idem: "nameTile (nameTile t) = nameTile t"
  by (auto simp: nameTile_def split: option.splits)

lemma chooseElfFileName_device:
  "getCoreOp (getTileOps (deviceOp s) ! i) = Some coreOp \<Longrightarrow>
   deviceOp (snd (chooseElfFileName i (getTileOps (deviceOp s) ! i) coreOp s)) =
     (deviceOp s)\<lparr>getTileOps := (getTileOps (deviceOp s))[i := nameTile (getTileOps (deviceOp s) ! i)]\<rparr>"
  by (auto simp: chooseElfFileName_def nameTile_def setCoreOp_def synthesizedElfName_def Let_def
           split: option.splits)

lemma coreLoopBody_device:
  "deviceOp (snd (coreLoopBody w objFile tempDir useChess targetArch verbose peanoDir npuVersion
                    ukernel uk vitisDir i s)) =
     (deviceOp s)\<lparr>getTileOps := (getTileOps (deviceOp s))[i := nameTile (getTileOps (deviceOp s) ! i)]\<rparr>"
proof (cases "getCoreOp (getTileOps (deviceOp s) ! i)")
  case None
  then show ?thesis by (simp add: coreLoopBody_def Let_def nameTile_def)
next
  case (Some coreOp)
  have rest: "keepsDevice
      (andThen
         (if wantsUkernel ukernel
          then andThen (ukernelObject w tempDir verbose npuVersion uk vitisDir)
                 (\<lambda>r. ret (Some (fst r), snd r))
          else ret (None, vitisDir))
         (\<lambda>r. if useChess
               then linkCoreWithChess w objFile tempDir verbose npuVersion c r' elfFileName
                      (fst r) (snd r)
               else andThen (linkCoreWithPeano w objFile tempDir targetArch verbose
                               peanoDir c r' elfFileName (fst r))
                      (\<lambda>_. ret (snd r))))" for elfFileName c r'
    by (intro keepsDevice_andThen)
       (auto simp: keepsDevice_ret keepsDevice_ukernelObject keepsDevice_linkCoreWithChess
          keepsDevice_linkCoreWithPeano intro!: keepsDevice_andThen)
  show ?thesis
    using andThen_device [of _ "chooseElfFileName i (getTileOps (deviceOp s) ! i) coreOp" s, OF rest]
          chooseElfFileName_device [OF Some]
    by (simp add: coreLoopBody_def Let_def Some)
qed

lemma forEach_coreLoopBody_tiles:
  fixes s :: state
  assumes "forEach (coreLoopBody w objFile tempDir useChess targetArch verbose peanoDir npuVersion
                      ukernel uk) vitisDir idxs s = (r, s')"
  shows "length (getTileOps (deviceOp s')) = length (getTileOps (deviceOp s))
         \<and> getNpuInstructions (deviceOp s') = getNpuInstructions (deviceOp s)
         \<and> (\<forall>j. getTileOps (deviceOp s') ! j = getTileOps (deviceOp s) ! j
                \<or> getTileOps (deviceOp s') ! j = nameTile (getTileOps (deviceOp s) ! j))
         \<and> (\<not> isl r \<longrightarrow> (\<forall>j\<in>set idxs. j < length (getTileOps (deviceOp s)) \<longrightarrow>
                getTileOps (deviceOp s') ! j = nameTile (getTileOps (deviceOp s) ! j)))"
  using assms
proof (induction idxs arbitrary: vitisDir s)
  case Nil
  then show ?case by auto
next
  case (Cons i idxs)
  let ?body = "coreLoopBody w objFile tempDir useChess targetArch verbose peanoDir npuVersion ukernel uk"
  obtain r1 s1 where b: "?body vitisDir i s = (r1, s1)" by (cases "?body vitisDir i s") auto
  have dev: "deviceOp s1 =
     (deviceOp s)\<lparr>getTileOps := (getTileOps (deviceOp s))[i := nameTile (getTileOps (deviceOp s) ! i)]\<rparr>"
    using coreLoopBody_device [of w objFile tempDir useChess targetArch verbose peanoDir
            npuVersion ukernel uk vitisDir i s] b by simp
  have one: "getTileOps (deviceOp s1) ! j = getTileOps (deviceOp s) ! j
             \<or> getTileOps (deviceOp s1) ! j = nameTile (getTileOps (deviceOp s) ! j)" for j
    by (cases "j = i"; cases "i < length (getTileOps (deviceOp s))")
       (simp_all add: dev list_update_beyond)
  show ?case
  proof (cases r1)
    case (Inl e)
    then have "s' = s1" "r = Inl e" using Cons.prems b by auto
    then show ?thesis using one by (simp add: dev)
  next
    case (Inr v)
    then have rec: "forEach ?body v idxs s1 = (r, s')" using Cons.prems b by simp
    note IH = Cons.IH [OF rec]
    have len: "length (getTileOps (deviceOp s')) = length (getTileOps (deviceOp s))"
      using IH by (simp add: dev)
    have attr: "getNpuInstructions (deviceOp s') = getNpuInstructions (deviceOp s)"
      using IH by (simp add: dev)
    have any: "getTileOps (deviceOp s') ! j = getTileOps (deviceOp s) ! j
               \<or> getTileOps (deviceOp s') ! j = nameTile (getTileOps (deviceOp s) ! j)" for j
      using IH one [of j] by (metis nameTile_idem)
    have named: "getTileOps (deviceOp s') ! j = nameTile (getTileOps (deviceOp s) ! j)"
      if ok: "\<not> isl r" and j: "j \<in> set (i # idxs)" and jl: "j < length (getTileOps (deviceOp s))" for j
    proof (cases "j = i")
      case True
      have "getTileOps (deviceOp s1) ! i = nameTile (getTileOps (deviceOp s) ! i)"
        using jl True by (simp add: dev)
      then show ?thesis using IH True by (metis nameTile_idem)
    next
      case False
      then have "j \<in> set idxs" using j by simp
      moreover have "j < length (getTileOps (deviceOp s1))" using jl by (simp add: dev)
      ultimately have "getTileOps (deviceOp s') ! j = nameTile (getTileOps (deviceOp s1) ! j)"
        using IH ok by blast
      then show ?thesis using one [of j] by (metis nameTile_idem)
    qed
    show ?thesis using len attr any named by blast
  qed
qed

lemma generateCoreElfFiles_tiles:
  fixes s :: state
  assumes "generateCoreElfFiles w objFile tempDir useChess vitisDir targetArch verbose peanoDir
             npuVersion ukernel s = (r, s')"
  shows "length (getTileOps (deviceOp s')) = length (getTileOps (deviceOp s))
         \<and> (\<forall>j. getTileOps (deviceOp s') ! j = getTileOps (deviceOp s) ! j
                \<or> getTileOps (deviceOp s') ! j = nameTile (getTileOps (deviceOp s) ! j))
         \<and> (r = Inr () \<longrightarrow> (\<forall>j < length (getTileOps (deviceOp s)).
                getTileOps (deviceOp s') ! j = nameTile (getTileOps (deviceOp s) ! j)))"
proof (cases "npuVersion = ''npu1'' \<or> npuVersion = ''npu4''")
  case False
  then have "s' = s" "r = Inl (UnsupportedNPUVersion npuVersion)"
    using assms by (auto simp: generateCoreElfFiles_def)
  then show ?thesis by simp
next
  case True
  then obtain uk where uk:
    "(if npuVersion = ''npu1'' then Some (mm_npu1_cc w, ''mm_npu1.cc'', ''mm_npu1.o'')
      else if npuVersion = ''npu4'' then Some (mm_npu4_cc w, ''mm_npu4.cc'', ''mm_npu4.o'')
      else None) = Some uk" by auto
  let ?loop = "forEach (coreLoopBody w objFile tempDir useChess targetArch verbose peanoDir
                          npuVersion ukernel uk) vitisDir [0..<length (getTileOps (deviceOp s))]"
  obtain r0 s0 where l: "?loop s = (r0, s0)" by (cases "?loop s") auto
  have "generateCoreElfFiles w objFile tempDir useChess vitisDir targetArch verbose peanoDir
             npuVersion ukernel s = andThen ?loop (\<lambda>_. ret ()) s"
    using uk by (simp add: generateCoreElfFiles_def)
  then have rs: "s' = s0" "isl r = isl r0"
    using assms l by (auto simp: andThen_def ret_def split: sum.splits)
  note inv = forEach_coreLoopBody_tiles [OF l]
  have "r = Inr () \<Longrightarrow> \<not> isl r0" using rs by auto
  then show ?thesis using inv rs(1) by auto
qed

lemma coreLoopBody_no_core:
  "getCoreOp (getTileOps (deviceOp s) ! i) = None \<Longrightarrow>
     coreLoopBody w objFile tempDir useChess targetArch verbose peanoDir npuVersion ukernel uk
       vitisDir i s = (Inr vitisDir, s)"
  by (simp add: coreLoopBody_def Let_def)

lemma forEach_coreLoopBody_prefix:
  fixes s :: state
  assumes "forEach (coreLoopBody w objFile tempDir useChess targetArch verbose peanoDir npuVersion
                      ukernel uk) vitisDir [i..<n] s = (r, s')"
    and "n = length (getTileOps (deviceOp s))"
  shows "length (getTileOps (deviceOp s')) = n
         \<and> getNpuInstructions (deviceOp s') = getNpuInstructions (deviceOp s)
         \<and> (\<exists>k. k \<le> n \<and> (i \<le> n \<longrightarrow> i \<le> k)
              \<and> (\<forall>j < n. getTileOps (deviceOp s') ! j =
                    (if i \<le> j \<and> j < k then nameTile (getTileOps (deviceOp s) ! j)
                     else getTileOps (deviceOp s) ! j))
              \<and> (\<not> isl r \<longrightarrow> k = n)
              \<and> (isl r \<longrightarrow> i < k \<and> getCoreOp (getTileOps (deviceOp s) ! (k - 1)) \<noteq> None))"
  using assms
proof (induction "n - i" arbitrary: i vitisDir s)
  case 0
  then have "[i..<n] = []" by simp
  then have "r = Inr vitisDir" "s' = s" using 0 by auto
  then show ?case using 0 by (auto intro!: exI [of _ n])
next
  case (Suc m)
  then have lt: "i < n" by simp
  then have up: "[i..<n] = i # [Suc i..<n]" by (simp add: upt_rec)
  let ?body = "coreLoopBody w objFile tempDir useChess targetArch verbose peanoDir npuVersion ukernel uk"
  obtain r1 s1 where b: "?body vitisDir i s = (r1, s1)" by (cases "?body vitisDir i s") auto
  have dev: "deviceOp s1 =
     (deviceOp s)\<lparr>getTileOps := (getTileOps (deviceOp s))[i := nameTile (getTileOps (deviceOp s) ! i)]\<rparr>"
    using coreLoopBody_device [of w objFile tempDir useChess targetArch verbose peanoDir
            npuVersion ukernel uk vitisDir i s] b by simp
  have n1: "n = length (getTileOps (deviceOp s1))" using Suc.prems(2) by (simp add: dev)
  show ?case
  proof (cases r1)
    case (Inl e)
    then have rs: "s' = s1" "r = Inl e" using Suc.prems(1) b up by auto
    have core: "getCoreOp (getTileOps (deviceOp s) ! i) \<noteq> None"
      using coreLoopBody_no_core [of s i w objFile tempDir useChess targetArch verbose peanoDir
               npuVersion ukernel uk vitisDir] b Inl by auto
    show ?thesis
      using lt Suc.prems(2) core
      by (auto simp: rs dev nth_list_update intro!: exI [of _ "Suc i"])
  next
    case (Inr v)
    then have rec: "forEach ?body v [Suc i..<n] s1 = (r, s')" using Suc.prems(1) b up by simp
    have m: "m = n - Suc i" using Suc.hyps(2) by simp
    from Suc.hyps(1) [OF m rec n1]
    obtain k where len: "length (getTileOps (deviceOp s')) = n"
      and attr: "getNpuInstructions (deviceOp s') = getNpuInstructions (deviceOp s1)"
      and k: "k \<le> n" "Suc i \<le> k"
      and nth: "\<forall>j < n. getTileOps (deviceOp s') ! j =
                    (if Suc i \<le> j \<and> j < k then nameTile (getTileOps (deviceOp s1) ! j)
                     else getTileOps (deviceOp s1) ! j)"
      and ok: "\<not> isl r \<longrightarrow> k = n"
      and bad: "isl r \<longrightarrow> Suc i < k \<and> getCoreOp (getTileOps (deviceOp s1) ! (k - 1)) \<noteq> None"
      using lt by auto
    have nth': "\<forall>j < n. getTileOps (deviceOp s') ! j =
                    (if i \<le> j \<and> j < k then nameTile (getTileOps (deviceOp s) ! j)
                     else getTileOps (deviceOp s) ! j)"
      using nth k lt Suc.prems(2) by (auto simp: dev nth_list_update)
    have bad': "isl r \<longrightarrow> i < k \<and> getCoreOp (getTileOps (deviceOp s) ! (k - 1)) \<noteq> None"
      using bad by (auto simp: dev nth_list_update)
    show ?thesis
      using len attr k nth' ok bad' by (auto simp: dev intro!: exI [of _ k])
  qed
qed

lemma generateCoreElfFiles_prefix:
  fixes s :: state
  assumes "generateCoreElfFiles w objFile tempDir useChess vitisDir targetArch verbose peanoDir
             npuVersion ukernel s = (r, s')"
  shows "length (getTileOps (deviceOp s')) = length (getTileOps (deviceOp s))
         \<and> getNpuInstructions (deviceOp s') = getNpuInstructions (deviceOp s)
         \<and> (\<exists>k \<le> length (getTileOps (deviceOp s)).
               (\<forall>j < k. getTileOps (deviceOp s') ! j = nameTile (getTileOps (deviceOp s) ! j))
             \<and> (\<forall>j. k \<le> j \<and> j < length (getTileOps (deviceOp s)) \<longrightarrow>
                    getTileOps (deviceOp s') ! j = getTileOps (deviceOp s) ! j)
             \<and> (r = Inr () \<longrightarrow> k = length (getTileOps (deviceOp s)))
             \<and> (isl r \<and> (npuVersion = ''npu1'' \<or> npuVersion = ''npu4'') \<longrightarrow>
                   0 < k \<and> getCoreOp (getTileOps (deviceOp s) ! (k - 1)) \<noteq> None)
             \<and> (npuVersion \<noteq> ''npu1'' \<and> npuVersion \<noteq> ''npu4'' \<longrightarrow> k = 0))"
proof (cases "npuVersion = ''npu1'' \<or> npuVersion = ''npu4''")
  case False
  then have "s' = s" "r = Inl (UnsupportedNPUVersion npuVersion)"
    using assms by (auto simp: generateCoreElfFiles_def)
  then show ?thesis using False by (auto intro!: exI [of _ 0])
next
  case True
  then obtain uk where uk:
    "(if npuVersion = ''npu1'' then Some (mm_npu1_cc w, ''mm_npu1.cc'', ''mm_npu1.o'')
      else if npuVersion = ''npu4'' then Some (mm_npu4_cc w, ''mm_npu4.cc'', ''mm_npu4.o'')
      else None) = Some uk" by auto
  let ?n = "length (getTileOps (deviceOp s))"
  let ?loop = "forEach (coreLoopBody w objFile tempDir useChess targetArch verbose peanoDir
                          npuVersion ukernel uk) vitisDir [0..<?n]"
  obtain r0 s0 where l: "?loop s = (r0, s0)" by (cases "?loop s") auto
  have "generateCoreElfFiles w objFile tempDir useChess vitisDir targetArch verbose peanoDir
             npuVersion ukernel s = andThen ?loop (\<lambda>_. ret ()) s"
    using uk by (simp add: generateCoreElfFiles_def)
  then have rs: "s' = s0" "isl r = isl r0"
    using assms l by (auto simp: andThen_def ret_def split: sum.splits)
  from forEach_coreLoopBody_prefix [OF l refl]
  obtain k where len: "length (getTileOps (deviceOp s0)) = ?n"
      and attr: "getNpuInstructions (deviceOp s0) = getNpuInstructions (deviceOp s)"
      and k: "k \<le> ?n"
      and nth: "\<forall>j < ?n. getTileOps (deviceOp s0) ! j =
                    (if 0 \<le> j \<and> j < k then nameTile (getTileOps (deviceOp s) ! j)
                     else getTileOps (deviceOp s) ! j)"
      and ok: "\<not> isl r0 \<longrightarrow> k = ?n"
      and bad: "isl r0 \<longrightarrow> 0 < k \<and> getCoreOp (getTileOps (deviceOp s) ! (k - 1)) \<noteq> None"
    by auto
  have ok': "r = Inr () \<longrightarrow> k = ?n" using ok rs by auto
  have a: "\<forall>j < k. getTileOps (deviceOp s0) ! j = nameTile (getTileOps (deviceOp s) ! j)"
    using nth k by auto
  have b: "\<forall>j. k \<le> j \<and> j < ?n \<longrightarrow> getTileOps (deviceOp s0) ! j = getTileOps (deviceOp s) ! j"
    using nth by auto
  show ?thesis
    unfolding rs(1) using len attr k a b ok' bad rs(2) True by (auto intro!: exI [of _ k])
qed

text \<open>
  Claim C7. Every round of the loop, whatever its outcome, leaves the device module with
  the tile of that round replaced by \<open>nameTile\<close> of it: a tile without a core and a
  tile whose core already carries an ELF file name stay exactly as they were (a preset
  name is never overwritten, and it is the name the round works with), and a core without
  an ELF file name gets \<^verbatim>\<open>core_<col>_<row>.elf\<close> stored on it. So after
  \<^verbatim>\<open>generateCoreElfFiles\<close>, whether it succeeded or failed, there is a number
  \<open>k\<close> of rounds run such that the first \<open>k\<close> tiles are named in this way and the
  others are untouched; \<open>k\<close> is the number of tiles on success, and on a failure
  within the loop the tile of the failing round, which has a core, is among the named
  ones. Every tile keeps its place and coordinates.
\<close>

theorem generateCoreElfFiles_elf_file_names:
  fixes s :: state
  assumes "generateCoreElfFiles w objFile tempDir useChess vitisDir targetArch verbose peanoDir
             npuVersion ukernel s = (r, s')"
  shows "(\<forall>uk vd i st.
            deviceOp (snd (coreLoopBody w objFile tempDir useChess targetArch verbose peanoDir
                             npuVersion ukernel uk vd i st)) =
              (deviceOp st)\<lparr>getTileOps :=
                 (getTileOps (deviceOp st))[i := nameTile (getTileOps (deviceOp st) ! i)]\<rparr>)
     \<and> (\<forall>t c. (getCoreOp t = None \<longrightarrow> nameTile t = t)
            \<and> (getCoreOp t = Some c \<and> getElfFileAttr c \<noteq> None \<longrightarrow> nameTile t = t)
            \<and> (getCoreOp t = Some c \<and> getElfFileAttr c = None \<longrightarrow>
                 nameTile t =
                   t\<lparr>getCoreOp := Some (c\<lparr>getElfFileAttr :=
                         Some (''core_'' @ to_string (getCol t) @ ''_'' @ to_string (getRow t)
                               @ ''.elf'')\<rparr>)\<rparr>))
     \<and> length (getTileOps (deviceOp s')) = length (getTileOps (deviceOp s))
     \<and> getNpuInstructions (deviceOp s') = getNpuInstructions (deviceOp s)
     \<and> (\<exists>k \<le> length (getTileOps (deviceOp s)).
           (\<forall>j < k. getTileOps (deviceOp s') ! j = nameTile (getTileOps (deviceOp s) ! j))
         \<and> (\<forall>j. k \<le> j \<and> j < length (getTileOps (deviceOp s)) \<longrightarrow>
                getTileOps (deviceOp s') ! j = getTileOps (deviceOp s) ! j)
         \<and> (r = Inr () \<longrightarrow> k = length (getTileOps (deviceOp s)))
         \<and> (isl r \<and> (npuVersion = ''npu1'' \<or> npuVersion = ''npu4'') \<longrightarrow>
               0 < k \<and> getCoreOp (getTileOps (deviceOp s) ! (k - 1)) \<noteq> None)
         \<and> (npuVersion \<noteq> ''npu1'' \<and> npuVersion \<noteq> ''npu4'' \<longrightarrow> k = 0))
     \<and> (\<forall>j t c. j < length (getTileOps (deviceOp s)) \<and> getTileOps (deviceOp s) ! j = t \<longrightarrow>
           (getCoreOp t = None \<longrightarrow> getTileOps (deviceOp s') ! j = t)
         \<and> (getCoreOp t = Some c \<and> getElfFileAttr c \<noteq> None \<longrightarrow> getTileOps (deviceOp s') ! j = t)
         \<and> (getCoreOp t = Some c \<and> getElfFileAttr c = None \<longrightarrow>
               getTileOps (deviceOp s') ! j = t
             \<or> getTileOps (deviceOp s') ! j =
                 t\<lparr>getCoreOp := Some (c\<lparr>getElfFileAttr :=
                       Some (''core_'' @ to_string (getCol t) @ ''_'' @ to_string (getRow t)
                             @ ''.elf'')\<rparr>)\<rparr>)
         \<and> (r = Inr () \<and> getCoreOp t = Some c \<and> getElfFileAttr c = None \<longrightarrow>
               getTileOps (deviceOp s') ! j =
                 t\<lparr>getCoreOp := Some (c\<lparr>getElfFileAttr :=
                       Some (''core_'' @ to_string (getCol t) @ ''_'' @ to_string (getRow t)
                             @ ''.elf'')\<rparr>)\<rparr>))
     \<and> (\<forall>i t c n st. getElfFileAttr c = Some n \<longrightarrow> chooseElfFileName i t c st = (Inr n, st))
     \<and> (\<forall>i t c st. getElfFileAttr c = None \<longrightarrow>
           fst (chooseElfFileName i t c st) =
             Inr (''core_'' @ to_string (getCol t) @ ''_'' @ to_string (getRow t) @ ''.elf''))"
proof -
  note inv = generateCoreElfFiles_tiles [OF assms]
  note pre = generateCoreElfFiles_prefix [OF assms]
  have R: "\<forall>uk vd i st.
            deviceOp (snd (coreLoopBody w objFile tempDir useChess targetArch verbose peanoDir
                             npuVersion ukernel uk vd i st)) =
              (deviceOp st)\<lparr>getTileOps :=
                 (getTileOps (deviceOp st))[i := nameTile (getTileOps (deviceOp st) ! i)]\<rparr>"
    by (simp add: coreLoopBody_device)
  have N: "\<forall>t c. (getCoreOp t = None \<longrightarrow> nameTile t = t)
            \<and> (getCoreOp t = Some c \<and> getElfFileAttr c \<noteq> None \<longrightarrow> nameTile t = t)
            \<and> (getCoreOp t = Some c \<and> getElfFileAttr c = None \<longrightarrow>
                 nameTile t =
                   t\<lparr>getCoreOp := Some (c\<lparr>getElfFileAttr :=
                         Some (''core_'' @ to_string (getCol t) @ ''_'' @ to_string (getRow t)
                               @ ''.elf'')\<rparr>)\<rparr>)"
    by (auto simp: nameTile_def synthesizedElfName_def split: option.splits)
  have A: "getElfFileAttr c = Some n \<longrightarrow> chooseElfFileName i t c st = (Inr n, st)" for i t c n st
    by (simp add: chooseElfFileName_def)
  have B: "getElfFileAttr c = None \<longrightarrow>
           fst (chooseElfFileName i t c st) =
             Inr (''core_'' @ to_string (getCol t) @ ''_'' @ to_string (getRow t) @ ''.elf'')"
    for i t c st
    by (simp add: chooseElfFileName_def Let_def)
  have C: "(getCoreOp t = None \<longrightarrow> getTileOps (deviceOp s') ! j = t)
         \<and> (getCoreOp t = Some c \<and> getElfFileAttr c \<noteq> None \<longrightarrow> getTileOps (deviceOp s') ! j = t)
         \<and> (getCoreOp t = Some c \<and> getElfFileAttr c = None \<longrightarrow>
               getTileOps (deviceOp s') ! j = t
             \<or> getTileOps (deviceOp s') ! j =
                 t\<lparr>getCoreOp := Some (c\<lparr>getElfFileAttr :=
                       Some (''core_'' @ to_string (getCol t) @ ''_'' @ to_string (getRow t)
                             @ ''.elf'')\<rparr>)\<rparr>)
         \<and> (r = Inr () \<and> getCoreOp t = Some c \<and> getElfFileAttr c = None \<longrightarrow>
               getTileOps (deviceOp s') ! j =
                 t\<lparr>getCoreOp := Some (c\<lparr>getElfFileAttr :=
                       Some (''core_'' @ to_string (getCol t) @ ''_'' @ to_string (getRow t)
                             @ ''.elf'')\<rparr>)\<rparr>)"
    if j: "j < length (getTileOps (deviceOp s))" and t: "getTileOps (deviceOp s) ! j = t" for j t c
  proof -
    have any: "getTileOps (deviceOp s') ! j = t \<or> getTileOps (deviceOp s') ! j = nameTile t"
      using inv t by auto
    have ok: "r = Inr () \<Longrightarrow> getTileOps (deviceOp s') ! j = nameTile t"
      using inv j t by auto
    show ?thesis using any ok
      by (auto simp: nameTile_def synthesizedElfName_def split: option.splits)
  qed
  have C': "\<forall>j t c. j < length (getTileOps (deviceOp s)) \<and> getTileOps (deviceOp s) ! j = t \<longrightarrow>
           (getCoreOp t = None \<longrightarrow> getTileOps (deviceOp s') ! j = t)
         \<and> (getCoreOp t = Some c \<and> getElfFileAttr c \<noteq> None \<longrightarrow> getTileOps (deviceOp s') ! j = t)
         \<and> (getCoreOp t = Some c \<and> getElfFileAttr c = None \<longrightarrow>
               getTileOps (deviceOp s') ! j = t
             \<or> getTileOps (deviceOp s') ! j =
                 t\<lparr>getCoreOp := Some (c\<lparr>getElfFileAttr :=
                       Some (''core_'' @ to_string (getCol t) @ ''_'' @ to_string (getRow t)
                             @ ''.elf'')\<rparr>)\<rparr>)
         \<and> (r = Inr () \<and> getCoreOp t = Some c \<and> getElfFileAttr c = None \<longrightarrow>
               getTileOps (deviceOp s') ! j =
                 t\<lparr>getCoreOp := Some (c\<lparr>getElfFileAttr :=
                       Some (''core_'' @ to_string (getCol t) @ ''_'' @ to_string (getRow t)
                             @ ''.elf'')\<rparr>)\<rparr>)"
    using C by blast
  have AB: "(\<forall>i t c n st. getElfFileAttr c = Some n \<longrightarrow> chooseElfFileName i t c st = (Inr n, st))
     \<and> (\<forall>i t c st. getElfFileAttr c = None \<longrightarrow>
           fst (chooseElfFileName i t c (st :: state)) =
             Inr (''core_'' @ to_string (getCol t) @ ''_'' @ to_string (getRow t) @ ''.elf''))"
    using A B by blast
  show ?thesis
    apply (intro conjI)
    using R apply blast
    using N apply blast
    using pre apply blast
    using pre apply blast
    using pre apply blast
    using C' apply blast
    using AB apply blast
    using AB apply blast
    done
qed

lemma to_string_digits: "to_string 0 = ''0''" "to_string 2 = ''2''" "to_string 5 = ''5''"
  by (simp_all add: to_string_def decDigits.simps [of 0] decDigits.simps [of 2] decDigits.simps [of 5])

lemma peano_run:
  "fst (generateCoreElfFiles (exampleWorld noEnv runsFine noParse) ''/tmp/input.o'' ''/tmp'' False
          None ''AIE2'' False ''/peano'' ''npu1'' None peanoHost) = Inr ()
   \<and> deviceOp (snd (generateCoreElfFiles (exampleWorld noEnv runsFine noParse) ''/tmp/input.o''
          ''/tmp'' False None ''AIE2'' False ''/peano'' ''npu1'' None peanoHost)) = threeTilesNamed
   \<and> map (\<lambda>e. case e of Exec p a env \<Rightarrow> (p, last a))
         (trace (snd (generateCoreElfFiles (exampleWorld noEnv runsFine noParse) ''/tmp/input.o''
          ''/tmp'' False None ''AIE2'' False ''/peano'' ''npu1'' None peanoHost)))
       = [(''/peano/bin/clang'', ''/tmp/core_2_5.elf''), (''/peano/bin/clang'', ''/tmp/custom.elf'')]"
  by (simp add: generateCoreElfFiles_def coreLoopBody_def chooseElfFileName_def setCoreOp_def
        wantsUkernel_def linkCoreWithPeano_def emitTranslation_def runTool_def andThen_def
        ret_def exampleWorld_def runsFine_def peanoHost_def threeTiles_def threeTilesNamed_def
        filesAt_def fs_exists_def path_append_def pjoin_def is_absolute_def Let_def
        to_string_digits lower_def toLower_def upt_rec)

lemma peano_failing_run:
  "fst (generateCoreElfFiles (exampleWorld noEnv linkFails noParse) ''/tmp/input.o'' ''/tmp'' False
          None ''AIE2'' False ''/peano'' ''npu1'' None
          \<lparr>fsys = filesAt [''/peano/bin/clang''], deviceOp = twoCores, trace = []\<rparr>)
     = Inl (ToolFailed ''/peano/bin/clang'' ''exit code 1'' [])
   \<and> deviceOp (snd (generateCoreElfFiles (exampleWorld noEnv linkFails noParse) ''/tmp/input.o''
          ''/tmp'' False None ''AIE2'' False ''/peano'' ''npu1'' None
          \<lparr>fsys = filesAt [''/peano/bin/clang''], deviceOp = twoCores, trace = []\<rparr>))
     = twoCoresFirstNamed
   \<and> map (\<lambda>e. case e of Exec p a env \<Rightarrow> (p, last a))
         (trace (snd (generateCoreElfFiles (exampleWorld noEnv linkFails noParse) ''/tmp/input.o''
          ''/tmp'' False None ''AIE2'' False ''/peano'' ''npu1'' None
          \<lparr>fsys = filesAt [''/peano/bin/clang''], deviceOp = twoCores, trace = []\<rparr>)))
       = [(''/peano/bin/clang'', ''/tmp/core_2_5.elf'')]"
  by (simp add: generateCoreElfFiles_def coreLoopBody_def chooseElfFileName_def setCoreOp_def
        wantsUkernel_def linkCoreWithPeano_def emitTranslation_def runTool_def andThen_def
        ret_def exampleWorld_def linkFails_def twoCores_def twoCoresFirstNamed_def
        filesAt_def fs_exists_def path_append_def pjoin_def is_absolute_def Let_def
        to_string_digits lower_def toLower_def upt_rec)

text \<open>
  Column 2, row 5 gives \<^verbatim>\<open>core_2_5.elf\<close>; \<^verbatim>\<open>custom.elf\<close> stays, and both names
  are the outputs of the two link steps. When the first link step fails, the name of the
  first core has been stored and the second core has none.
\<close>

theorem generateCoreElfFiles_elf_file_names_witness:
  "fst (generateCoreElfFiles (exampleWorld noEnv runsFine noParse) ''/tmp/input.o'' ''/tmp'' False
          None ''AIE2'' False ''/peano'' ''npu1'' None peanoHost) = Inr ()
   \<and> deviceOp peanoHost = threeTiles
   \<and> deviceOp (snd (generateCoreElfFiles (exampleWorld noEnv runsFine noParse) ''/tmp/input.o''
          ''/tmp'' False None ''AIE2'' False ''/peano'' ''npu1'' None peanoHost)) = threeTilesNamed
   \<and> length (getTileOps (deviceOp (snd (generateCoreElfFiles
          (exampleWorld noEnv runsFine noParse) ''/tmp/input.o'' ''/tmp'' False None ''AIE2'' False
          ''/peano'' ''npu1'' None peanoHost)))) = length (getTileOps (deviceOp peanoHost))
   \<and> map (\<lambda>e. case e of Exec p a env \<Rightarrow> (p, last a))
         (trace (snd (generateCoreElfFiles (exampleWorld noEnv runsFine noParse) ''/tmp/input.o''
          ''/tmp'' False None ''AIE2'' False ''/peano'' ''npu1'' None peanoHost)))
       = [(''/peano/bin/clang'', ''/tmp/core_2_5.elf''), (''/peano/bin/clang'', ''/tmp/custom.elf'')]
   \<and> fst (generateCoreElfFiles (exampleWorld noEnv linkFails noParse) ''/tmp/input.o'' ''/tmp'' False
          None ''AIE2'' False ''/peano'' ''npu1'' None
          \<lparr>fsys = filesAt [''/peano/bin/clang''], deviceOp = twoCores, trace = []\<rparr>)
       = Inl (ToolFailed ''/peano/bin/clang'' ''exit code 1'' [])
   \<and> deviceOp (snd (generateCoreElfFiles (exampleWorld noEnv linkFails noParse) ''/tmp/input.o''
          ''/tmp'' False None ''AIE2'' False ''/peano'' ''npu1'' None
          \<lparr>fsys = filesAt [''/peano/bin/clang''], deviceOp = twoCores, trace = []\<rparr>))
       = twoCoresFirstNamed
   \<and> getNpuInstructions (deviceOp (snd (generateCoreElfFiles (exampleWorld noEnv linkFails noParse)
          ''/tmp/input.o'' ''/tmp'' False None ''AIE2'' False ''/peano'' ''npu1'' None
          \<lparr>fsys = filesAt [''/peano/bin/clang''], deviceOp = twoCores, trace = []\<rparr>)))
       = getNpuInstructions (deviceOp
          \<lparr>fsys = filesAt [''/peano/bin/clang''], deviceOp = twoCores, trace = []\<rparr>)"
proof -
  let ?g = "generateCoreElfFiles (exampleWorld noEnv runsFine noParse) ''/tmp/input.o'' ''/tmp'' False
          None ''AIE2'' False ''/peano'' ''npu1'' None peanoHost"
  let ?h = "generateCoreElfFiles (exampleWorld noEnv linkFails noParse) ''/tmp/input.o'' ''/tmp'' False
          None ''AIE2'' False ''/peano'' ''npu1'' None
          \<lparr>fsys = filesAt [''/peano/bin/clang''], deviceOp = twoCores, trace = []\<rparr>"
  have len: "length (getTileOps (deviceOp (snd ?g))) = length (getTileOps (deviceOp peanoHost))"
    using generateCoreElfFiles_elf_file_names [OF surjective_pairing [of ?g]] by blast
  have attr: "getNpuInstructions (deviceOp (snd ?h)) = getNpuInstructions (deviceOp
          \<lparr>fsys = filesAt [''/peano/bin/clang''], deviceOp = twoCores, trace = []\<rparr>)"
    using generateCoreElfFiles_elf_file_names [OF surjective_pairing [of ?h]] by blast
  have dev: "deviceOp peanoHost = threeTiles" by (simp add: peanoHost_def)
  show ?thesis using len attr dev peano_run peano_failing_run by blast
qed

section \<open>Properties of the pipeline when the vendor toolchain cannot be resolved\<close>

lemma dumpInstructions_frame:
  "trace (snd (dumpInstructions w outputNPU s)) = trace s
   \<and> deviceOp (snd (dumpInstructions w outputNPU s)) = deviceOp s"
  by (auto simp: dumpInstructions_def emitNpuInstructions_def ret_def
           split: option.splits Attribute.splits sum.splits)

lemma generateUnifiedObject_chess_unresolved:
  assumes "useChess" and "fst (findVitis w (fsys s) vitisDir npuVersion) = Inl e"
  shows "generateUnifiedObject w outputFile useChess verbose tempDir vitisDir targetArch peanoDir
           npuVersion additionalPeanoOptFlags s =
         (Inl (case coreToLLVMIR w useChess (deviceOp s) of
                 PassesFailed \<Rightarrow> LoweringFailed
               | NoLLVMModule \<Rightarrow> TranslationFailed
               | LLVMIR ir \<Rightarrow> e), s)"
  using assms
  by (cases "findVitis w (fsys s) vitisDir npuVersion")
     (auto simp: generateUnifiedObject_def split: lowering.splits)

lemma generateUnifiedObject_peano_success:
  assumes "\<not> useChess"
    and "generateUnifiedObject w outputFile useChess verbose tempDir vitisDir targetArch peanoDir
           npuVersion additionalPeanoOptFlags s = (Inr (), s')"
  shows "\<exists>peanoArgs llcArgs.
           trace s' = trace s @ [Exec (pjoin peanoDir [''bin'', ''opt'']) peanoArgs [],
                                 Exec (pjoin peanoDir [''bin'', ''llc'']) llcArgs []]"
proof -
  obtain ir where ir: "coreToLLVMIR w useChess (deviceOp s) = LLVMIR ir"
    using assms by (auto simp: generateUnifiedObject_def split: lowering.splits)
  let ?f = "path_append tempDir ''input.ll''"
  have op: "openOutputFile w (fsys s) ?f"
    using assms ir
    by (auto simp: generateUnifiedObject_def andThen_def dumpStrToDisk_def Let_def
             split: if_splits)
  let ?s1 = "s\<lparr>fsys := (fsys s)(?f \<mapsto> Regular ir)\<rparr>"
  obtain peanoArgs where pa:
    "makePeanoOptArgs ?f (path_append tempDir ''input.opt.ll'') additionalPeanoOptFlags = Inr peanoArgs"
    using assms ir op
    by (cases "makePeanoOptArgs ?f (path_append tempDir ''input.opt.ll'') additionalPeanoOptFlags")
       (auto simp: generateUnifiedObject_def andThen_def dumpStrToDisk_def Let_def fail_def)
  let ?llc = "[path_append tempDir ''input.opt.ll'', ''-O2'', ''--march='' @ lower targetArch,
               ''--function-sections'', ''--filetype=obj'', ''-o'', outputFile]"
  obtain ra sa where a: "runTool w (pjoin peanoDir [''bin'', ''opt'']) peanoArgs verbose None ?s1 = (ra, sa)"
    by (cases "runTool w (pjoin peanoDir [''bin'', ''opt'']) peanoArgs verbose None ?s1") auto
  have g: "generateUnifiedObject w outputFile useChess verbose tempDir vitisDir targetArch peanoDir
           npuVersion additionalPeanoOptFlags s =
        andThen (runTool w (pjoin peanoDir [''bin'', ''opt'']) peanoArgs verbose None)
          (\<lambda>_. runTool w (pjoin peanoDir [''bin'', ''llc'']) ?llc verbose None) ?s1"
    using assms(1) ir op pa
    by (simp add: generateUnifiedObject_def andThen_def dumpStrToDisk_def Let_def)
  have ra: "ra = Inr ()" using assms(2) a unfolding g by (cases ra) (auto simp: andThen_def)
  have b: "runTool w (pjoin peanoDir [''bin'', ''llc'']) ?llc verbose None sa = (Inr (), s')"
    using assms(2) a ra unfolding g by (simp add: andThen_def)
  have "trace sa = trace s @ [Exec (pjoin peanoDir [''bin'', ''opt'']) peanoArgs []]"
    using runTool_outcome [OF a] ra by simp
  moreover have "trace s' = trace sa @ [Exec (pjoin peanoDir [''bin'', ''llc'']) ?llc []]"
    using runTool_outcome [OF b] by simp
  ultimately show ?thesis by simp
qed

lemma keepsDevice_generateUnifiedObject:
  "keepsDevice (generateUnifiedObject w outputFile useChess verbose tempDir vitisDir targetArch
                  peanoDir npuVersion additionalPeanoOptFlags)"
proof (rule keepsDevice_cases)
  fix s :: state
  have p: "keepsDevice (andThen (dumpStrToDisk w ir f) (\<lambda>_.
               let peanoOptBin = pjoin peanoDir [''bin'', ''opt''];
                   peanoLLCBin = pjoin peanoDir [''bin'', ''llc''];
                   OptLLVMIRFile = path_append tempDir ''input.opt.ll''
               in (case makePeanoOptArgs f OptLLVMIRFile additionalPeanoOptFlags of
                     Inl e \<Rightarrow> fail e
                   | Inr peanoArgs \<Rightarrow>
                       andThen (runTool w peanoOptBin peanoArgs verbose None) (\<lambda>_.
                         runTool w peanoLLCBin
                           [OptLLVMIRFile, ''-O2'', ''--march='' @ lower targetArch,
                            ''--function-sections'', ''--filetype=obj'', ''-o'', outputFile]
                           verbose None))))" for ir f
    unfolding Let_def
    by (intro keepsDevice_andThen keepsDevice_dumpStrToDisk)
       (auto simp: keepsDevice_fail keepsDevice_runTool intro!: keepsDevice_andThen
             split: sum.splits)
  have c: "keepsDevice (andThen (assembleStringUsingChess w ir ''input.ll'' outputFile tempDir []
                            tempDir d npuVersion verbose) (\<lambda>chessIntrinsicsObjFile. ret ()))" for ir d
    by (intro keepsDevice_andThen keepsDevice_assembleStringUsingChess keepsDevice_ret)
  show "deviceOp (snd (generateUnifiedObject w outputFile useChess verbose tempDir vitisDir
                         targetArch peanoDir npuVersion additionalPeanoOptFlags s)) = deviceOp s"
    using keepsDeviceD [OF p] keepsDeviceD [OF c]
    by (auto simp: generateUnifiedObject_def Let_def split: lowering.splits prod.splits sum.splits)
qed

lemma coreLoopBody_unresolved:
  fixes s :: state
  assumes need: "useChess \<or> wantsUkernel ukernel"
    and unres: "fst (findVitis w (fsys s) vitisDir npuVersion) = Inl e"
  shows "(getCoreOp (getTileOps (deviceOp s) ! i) = None \<longrightarrow>
            coreLoopBody w objFile tempDir useChess targetArch verbose peanoDir npuVersion ukernel
              uk vitisDir i s = (Inr vitisDir, s))
       \<and> (getCoreOp (getTileOps (deviceOp s) ! i) \<noteq> None \<longrightarrow>
            fst (coreLoopBody w objFile tempDir useChess targetArch verbose peanoDir npuVersion
                   ukernel uk vitisDir i s) = Inl e
          \<and> trace (snd (coreLoopBody w objFile tempDir useChess targetArch verbose peanoDir
                   npuVersion ukernel uk vitisDir i s)) = trace s
          \<and> fsys (snd (coreLoopBody w objFile tempDir useChess targetArch verbose peanoDir
                   npuVersion ukernel uk vitisDir i s)) = fsys s)"
proof -
  obtain a b c where uk: "uk = (a, b, c)" by (cases uk) auto
  obtain vd where fv: "findVitis w (fsys s) vitisDir npuVersion = (Inl e, vd)"
    using unres by (cases "findVitis w (fsys s) vitisDir npuVersion") auto
  show ?thesis
    using need fv
    by (auto simp: coreLoopBody_def Let_def andThen_def ret_def chooseElfFileName_def
          ukernelObject_def linkCoreWithChess_def uk split: option.splits)
qed

lemma forEach_coreLoopBody_unresolved:
  fixes s :: state
  assumes need: "useChess \<or> wantsUkernel ukernel"
    and unres: "fst (findVitis w (fsys s) vitisDir npuVersion) = Inl e"
    and run: "forEach (coreLoopBody w objFile tempDir useChess targetArch verbose peanoDir
                npuVersion ukernel uk) vitisDir idxs s = (r, s')"
  shows "trace s' = trace s \<and> fsys s' = fsys s
         \<and> (if \<exists>i\<in>set idxs. getCoreOp (getTileOps (deviceOp s) ! i) \<noteq> None
             then r = Inl e else r = Inr vitisDir \<and> s' = s)"
  using run
proof (induction idxs)
  case Nil
  then show ?case by auto
next
  case (Cons i idxs)
  note b = coreLoopBody_unresolved [OF need unres, where objFile = objFile and tempDir = tempDir
      and targetArch = targetArch and verbose = verbose and peanoDir = peanoDir and uk = uk
      and i = i]
  show ?case
  proof (cases "getCoreOp (getTileOps (deviceOp s) ! i)")
    case None
    then have "forEach (coreLoopBody w objFile tempDir useChess targetArch verbose peanoDir
                npuVersion ukernel uk) vitisDir idxs s = (r, s')"
      using Cons.prems b by simp
    then show ?thesis using Cons.IH None by simp
  next
    case (Some c)
    let ?b = "coreLoopBody w objFile tempDir useChess targetArch verbose peanoDir npuVersion
                ukernel uk vitisDir i s"
    have f: "fst ?b = Inl e" and t: "trace (snd ?b) = trace s" and d: "fsys (snd ?b) = fsys s"
      using b Some by auto
    have "(r, s') = (Inl e, snd ?b)"
      using Cons.prems f by (cases ?b) auto
    then show ?thesis using t d Some by auto
  qed
qed

lemma generateCoreElfFiles_unresolved:
  fixes s :: state
  assumes need: "useChess \<or> wantsUkernel ukernel"
    and unres: "fst (findVitis w (fsys s) vitisDir npuVersion) = Inl e"
    and core: "hasCore (deviceOp s)"
  shows "isl (fst (generateCoreElfFiles w objFile tempDir useChess vitisDir targetArch verbose
                     peanoDir npuVersion ukernel s))
         \<and> (npuVersion = ''npu1'' \<or> npuVersion = ''npu4'' \<longrightarrow>
              fst (generateCoreElfFiles w objFile tempDir useChess vitisDir targetArch verbose
                     peanoDir npuVersion ukernel s) = Inl e)
         \<and> trace (snd (generateCoreElfFiles w objFile tempDir useChess vitisDir targetArch verbose
                          peanoDir npuVersion ukernel s)) = trace s"
proof (cases "npuVersion = ''npu1'' \<or> npuVersion = ''npu4''")
  case False
  then show ?thesis by (simp add: generateCoreElfFiles_def)
next
  case True
  then obtain uk where uk:
    "(if npuVersion = ''npu1'' then Some (mm_npu1_cc w, ''mm_npu1.cc'', ''mm_npu1.o'')
      else if npuVersion = ''npu4'' then Some (mm_npu4_cc w, ''mm_npu4.cc'', ''mm_npu4.o'')
      else None) = Some uk" by auto
  let ?loop = "forEach (coreLoopBody w objFile tempDir useChess targetArch verbose peanoDir
                          npuVersion ukernel uk) vitisDir [0..<length (getTileOps (deviceOp s))]"
  obtain r0 s0 where l: "?loop s = (r0, s0)" by (cases "?loop s") auto
  obtain t where t: "t \<in> set (getTileOps (deviceOp s))" "getCoreOp t \<noteq> None"
    using core by (auto simp: hasCore_def)
  obtain i where i: "i < length (getTileOps (deviceOp s))" "getTileOps (deviceOp s) ! i = t"
    using t(1) by (auto simp: in_set_conv_nth)
  have "i \<in> set [0..<length (getTileOps (deviceOp s))]" using i(1) by simp
  then have ex: "\<exists>i\<in>set [0..<length (getTileOps (deviceOp s))].
              getCoreOp (getTileOps (deviceOp s) ! i) \<noteq> None"
    using i(2) t(2) by blast
  have "trace s0 = trace s \<and> r0 = Inl e"
    using forEach_coreLoopBody_unresolved [OF need unres l] ex by auto
  moreover have "generateCoreElfFiles w objFile tempDir useChess vitisDir targetArch verbose
             peanoDir npuVersion ukernel s = andThen ?loop (\<lambda>_. ret ()) s"
    using uk by (simp add: generateCoreElfFiles_def)
  ultimately show ?thesis using l True by (simp add: andThen_def)
qed

lemma chess_run:
  "aie2xclbin (exampleWorld noEnv runsFine noParse) None False ''/out/module.xclbin'' ''/tmp'' True
     False None ''AIE2'' ''npu1'' ''/peano'' XRT ''0x101'' ''kernel'' ''instance'' ''/install'' None
     None [] peanoHost = (Inl ToolchainNotFound, peanoHost)"
  by (simp add: aie2xclbin_def dumpInstructions_def generateUnifiedObject_def findVitis_def
        locateVitisDir_def andThen_def ret_def exampleWorld_def noEnv_def Let_def)

lemma peano_ukernel_run:
  "fst (aie2xclbin (exampleWorld noEnv runsFine noParse) None False ''/out/module.xclbin'' ''/tmp''
          False False None ''AIE2'' ''npu1'' ''/peano'' XRT ''0x101'' ''kernel'' ''instance''
          ''/install'' None (Some ''mm'') [] peanoHost) = Inl ToolchainNotFound
   \<and> map (\<lambda>ev. case ev of Exec p a env \<Rightarrow> (p, last a))
        (trace (snd (aie2xclbin (exampleWorld noEnv runsFine noParse) None False
          ''/out/module.xclbin'' ''/tmp'' False False None ''AIE2'' ''npu1'' ''/peano'' XRT ''0x101''
          ''kernel'' ''instance'' ''/install'' None (Some ''mm'') [] peanoHost)))
      = [(''/peano/bin/opt'', ''/tmp/input.opt.ll''), (''/peano/bin/llc'', ''/tmp/input.o'')]"
  by (simp add: aie2xclbin_def dumpInstructions_def generateUnifiedObject_def findVitis_def
        locateVitisDir_def andThen_def ret_def fail_def exampleWorld_def noEnv_def Let_def
        dumpStrToDisk_def makePeanoOptArgs_def defaultPeanoOptArgs_def runTool_def runsFine_def
        peanoHost_def threeTiles_def filesAt_def fs_exists_def path_append_def pjoin_def
        is_absolute_def generateCoreElfFiles_def coreLoopBody_def chooseElfFileName_def
        setCoreOp_def wantsUkernel_def ukernelObject_def to_string_digits upt_rec)

text \<open>
  Claim C1, as stated, asks that no compiler runs when microkernels are requested and the
  vendor toolchain cannot be resolved. With the open backend selected, the unified-object
  stage comes first and runs the open backend's \<^verbatim>\<open>opt\<close> and \<^verbatim>\<open>llc\<close>; the
  toolchain is looked for only in the core-ELF stage after it.
\<close>

theorem aie2xclbin_open_backend_runs_compilers_counterexample:
  "wantsUkernel (Some ''mm'')
   \<and> fst (findVitis (exampleWorld noEnv runsFine noParse) (fsys peanoHost) None ''npu1'')
       = Inl ToolchainNotFound
   \<and> fst (aie2xclbin (exampleWorld noEnv runsFine noParse) None False ''/out/module.xclbin'' ''/tmp''
          False False None ''AIE2'' ''npu1'' ''/peano'' XRT ''0x101'' ''kernel'' ''instance''
          ''/install'' None (Some ''mm'') [] peanoHost) = Inl ToolchainNotFound
   \<and> map (\<lambda>ev. case ev of Exec p a env \<Rightarrow> (p, last a))
        (trace (snd (aie2xclbin (exampleWorld noEnv runsFine noParse) None False
          ''/out/module.xclbin'' ''/tmp'' False False None ''AIE2'' ''npu1'' ''/peano'' XRT ''0x101''
          ''kernel'' ''instance'' ''/install'' None (Some ''mm'') [] peanoHost)))
      = [(''/peano/bin/opt'', ''/tmp/input.opt.ll''), (''/peano/bin/llc'', ''/tmp/input.o'')]"
  using peano_ukernel_run
  by (simp add: wantsUkernel_def findVitis_def locateVitisDir_def exampleWorld_def noEnv_def)

text \<open>
  Claim C1, amended. \<open>s1\<close> is the state after the instruction dump and \<open>s2\<close> the
  state after the unified-object stage. When the vendor backend is selected and the vendor
  toolchain cannot be resolved on \<open>s1\<close>, the pipeline fails and no external program is
  run at all; the failure is the one of the resolution if the dump and the lowering went
  through. When the open backend is selected, microkernels are requested, the device has
  a core, the first two stages succeed and the toolchain cannot be resolved on \<open>s2\<close>,
  the pipeline fails, and the external programs run are exactly the open backend's
  \<^verbatim>\<open>opt\<close> and \<^verbatim>\<open>llc\<close> of the unified-object stage: the core-ELF stage runs
  none. The failure is the one of the resolution for a supported hardware family.
\<close>

theorem aie2xclbin_unresolved_toolchain:
  fixes s :: state
  assumes stage1: "dumpInstructions w outputNPU s = (r1, s1)"
    and stage2: "generateUnifiedObject w (path_append tempDir ''input.o'') useChess verbose tempDir
                   vitisDir targetArch peanoDir npuVersion additionalPeanoOptFlags s1 = (r2, s2)"
  shows
    "(useChess \<and> fst (findVitis w (fsys s1) vitisDir npuVersion) = Inl e \<longrightarrow>
        isl (fst (aie2xclbin w outputNPU emitCtrlPkt artifactPath tempDir useChess verbose vitisDir
                    targetArch npuVersion peanoDir deviceHal xclBinKernelID xclBinKernelName
                    xclBinInstanceName amdAIEInstallDir InputXCLBin ukernel
                    additionalPeanoOptFlags s))
      \<and> trace (snd (aie2xclbin w outputNPU emitCtrlPkt artifactPath tempDir useChess verbose
                    vitisDir targetArch npuVersion peanoDir deviceHal xclBinKernelID
                    xclBinKernelName xclBinInstanceName amdAIEInstallDir InputXCLBin ukernel
                    additionalPeanoOptFlags s)) = trace s
      \<and> (r1 = Inr () \<and> (\<exists>ir. coreToLLVMIR w useChess (deviceOp s) = LLVMIR ir) \<longrightarrow>
           fst (aie2xclbin w outputNPU emitCtrlPkt artifactPath tempDir useChess verbose vitisDir
                    targetArch npuVersion peanoDir deviceHal xclBinKernelID xclBinKernelName
                    xclBinInstanceName amdAIEInstallDir InputXCLBin ukernel
                    additionalPeanoOptFlags s) = Inl e))
   \<and> (\<not> useChess \<and> wantsUkernel ukernel \<and> r1 = Inr () \<and> r2 = Inr () \<and> hasCore (deviceOp s)
        \<and> fst (findVitis w (fsys s2) vitisDir npuVersion) = Inl e \<longrightarrow>
        isl (fst (aie2xclbin w outputNPU emitCtrlPkt artifactPath tempDir useChess verbose vitisDir
                    targetArch npuVersion peanoDir deviceHal xclBinKernelID xclBinKernelName
                    xclBinInstanceName amdAIEInstallDir InputXCLBin ukernel
                    additionalPeanoOptFlags s))
      \<and> (\<exists>peanoArgs llcArgs.
            trace (snd (aie2xclbin w outputNPU emitCtrlPkt artifactPath tempDir useChess verbose
                    vitisDir targetArch npuVersion peanoDir deviceHal xclBinKernelID
                    xclBinKernelName xclBinInstanceName amdAIEInstallDir InputXCLBin ukernel
                    additionalPeanoOptFlags s))
              = trace s @ [Exec (pjoin peanoDir [''bin'', ''opt'']) peanoArgs [],
                           Exec (pjoin peanoDir [''bin'', ''llc'']) llcArgs []])
      \<and> (npuVersion = ''npu1'' \<or> npuVersion = ''npu4'' \<longrightarrow>
           fst (aie2xclbin w outputNPU emitCtrlPkt artifactPath tempDir useChess verbose vitisDir
                    targetArch npuVersion peanoDir deviceHal xclBinKernelID xclBinKernelName
                    xclBinInstanceName amdAIEInstallDir InputXCLBin ukernel
                    additionalPeanoOptFlags s) = Inl e))"
proof -
  let ?run = "aie2xclbin w outputNPU emitCtrlPkt artifactPath tempDir useChess verbose vitisDir
                targetArch npuVersion peanoDir deviceHal xclBinKernelID xclBinKernelName
                xclBinInstanceName amdAIEInstallDir InputXCLBin ukernel additionalPeanoOptFlags s"
  have t1: "trace s1 = trace s" and d1: "deviceOp s1 = deviceOp s"
    using dumpInstructions_frame [of w outputNPU s] stage1 by auto
  have A: "isl (fst ?run) \<and> trace (snd ?run) = trace s
           \<and> (r1 = Inr () \<and> (\<exists>ir. coreToLLVMIR w useChess (deviceOp s) = LLVMIR ir) \<longrightarrow>
                fst ?run = Inl e)"
    if c: "useChess" and e: "fst (findVitis w (fsys s1) vitisDir npuVersion) = Inl e"
  proof (cases r1)
    case (Inl e')
    then show ?thesis using stage1 t1 by (simp add: aie2xclbin_def Let_def andThen_def)
  next
    case (Inr x)
    show ?thesis
      using stage1 Inr t1 d1 generateUnifiedObject_chess_unresolved [OF c e]
      by (auto simp: aie2xclbin_def Let_def andThen_def)
  qed
  have B: "isl (fst ?run)
      \<and> (\<exists>peanoArgs llcArgs. trace (snd ?run)
              = trace s @ [Exec (pjoin peanoDir [''bin'', ''opt'']) peanoArgs [],
                           Exec (pjoin peanoDir [''bin'', ''llc'']) llcArgs []])
      \<and> (npuVersion = ''npu1'' \<or> npuVersion = ''npu4'' \<longrightarrow> fst ?run = Inl e)"
    if c: "\<not> useChess" and k: "wantsUkernel ukernel" and r1: "r1 = Inr ()" and r2: "r2 = Inr ()"
      and h: "hasCore (deviceOp s)"
      and e: "fst (findVitis w (fsys s2) vitisDir npuVersion) = Inl e"
  proof -
    have "keepsDevice (generateUnifiedObject w (path_append tempDir ''input.o'') useChess verbose
             tempDir vitisDir targetArch peanoDir npuVersion additionalPeanoOptFlags)"
      by (rule keepsDevice_generateUnifiedObject)
    then have "deviceOp (snd (generateUnifiedObject w (path_append tempDir ''input.o'') useChess
             verbose tempDir vitisDir targetArch peanoDir npuVersion additionalPeanoOptFlags s1))
             = deviceOp s1"
      by (rule keepsDeviceD)
    then have d2: "deviceOp s2 = deviceOp s" using stage2 d1 by simp
    have need: "useChess \<or> wantsUkernel ukernel" using k by simp
    note core = generateCoreElfFiles_unresolved [OF need e, where objFile = "path_append tempDir ''input.o''"
                  and tempDir = tempDir and targetArch = targetArch and verbose = verbose
                  and peanoDir = peanoDir]
    have tr: "\<exists>peanoArgs llcArgs.
           trace s2 = trace s1 @ [Exec (pjoin peanoDir [''bin'', ''opt'']) peanoArgs [],
                                  Exec (pjoin peanoDir [''bin'', ''llc'']) llcArgs []]"
      using generateUnifiedObject_peano_success [OF c] stage2 r2 by simp
    let ?g = "generateCoreElfFiles w (path_append tempDir ''input.o'') tempDir useChess vitisDir
                targetArch verbose peanoDir npuVersion ukernel s2"
    have g: "isl (fst ?g) \<and> trace (snd ?g) = trace s2
             \<and> (npuVersion = ''npu1'' \<or> npuVersion = ''npu4'' \<longrightarrow> fst ?g = Inl e)"
      using core h d2 by simp
    have "?run = (case ?g of (Inl e, s') \<Rightarrow> (Inl e, s') | (Inr x, s') \<Rightarrow>
                     (andThen (if emitCtrlPkt then generateControlPackets w tempDir else ret ()) (\<lambda>_.
                      andThen (generateCDO w tempDir) (\<lambda>_.
                      andThen (generatePDI w (path_append tempDir ''design.pdi'') tempDir) (\<lambda>_.
                        if deviceHal = XRT_LITE
                        then (\<lambda>s. case copy_file w (path_append tempDir ''design.pdi'') artifactPath (fsys s) of
                                     None \<Rightarrow> (Inl CopyFailed, s)
                                   | Some f' \<Rightarrow> (Inr (), s\<lparr>fsys := f'\<rparr>))
                        else generateXCLBin w artifactPath tempDir xclBinKernelID xclBinKernelName
                               xclBinInstanceName amdAIEInstallDir verbose InputXCLBin)))) s')"
      using stage1 stage2 r1 r2 by (simp add: aie2xclbin_def Let_def andThen_def)
    then have "isl (fst ?run) \<and> trace (snd ?run) = trace s2
               \<and> (npuVersion = ''npu1'' \<or> npuVersion = ''npu4'' \<longrightarrow> fst ?run = Inl e)"
      using g by (cases ?g) (auto split: sum.splits)
    then show ?thesis using tr t1 by auto
  qed
  show ?thesis using A B by blast
qed

theorem aie2xclbin_unresolved_toolchain_witness:
  "aie2xclbin (exampleWorld noEnv runsFine noParse) None False ''/out/module.xclbin'' ''/tmp'' True
     False None ''AIE2'' ''npu1'' ''/peano'' XRT ''0x101'' ''kernel'' ''instance'' ''/install'' None
     None [] peanoHost = (Inl ToolchainNotFound, peanoHost)
   \<and> trace peanoHost = []
   \<and> fst (aie2xclbin (exampleWorld noEnv runsFine noParse) None False ''/out/module.xclbin'' ''/tmp''
          False False None ''AIE2'' ''npu1'' ''/peano'' XRT ''0x101'' ''kernel'' ''instance''
          ''/install'' None (Some ''mm'') [] peanoHost) = Inl ToolchainNotFound
   \<and> length (trace (snd (aie2xclbin (exampleWorld noEnv runsFine noParse) None False
          ''/out/module.xclbin'' ''/tmp'' False False None ''AIE2'' ''npu1'' ''/peano'' XRT ''0x101''
          ''kernel'' ''instance'' ''/install'' None (Some ''mm'') [] peanoHost))) = 2"
proof -
  let ?w = "exampleWorld noEnv runsFine noParse"
  have s1: "dumpInstructions ?w None peanoHost = (Inr (), peanoHost)"
    by (simp add: dumpInstructions_def ret_def)
  have unres: "fst (findVitis ?w (fsys s) None ''npu1'') = Inl ToolchainNotFound" for s :: state
    by (simp add: findVitis_def locateVitisDir_def exampleWorld_def noEnv_def)
  have core: "hasCore (deviceOp peanoHost)"
    by (simp add: hasCore_def peanoHost_def threeTiles_def)
  have ir: "\<exists>ir. coreToLLVMIR ?w True (deviceOp peanoHost) = LLVMIR ir"
    by (simp add: exampleWorld_def)
  note chess = aie2xclbin_unresolved_toolchain [OF s1 surjective_pairing,
      where useChess = True and vitisDir = None and npuVersion = "''npu1''"
        and e = ToolchainNotFound and tempDir = "''/tmp''" and verbose = False
        and targetArch = "''AIE2''" and peanoDir = "''/peano''" and additionalPeanoOptFlags = "[]"
        and emitCtrlPkt = False and artifactPath = "''/out/module.xclbin''" and deviceHal = XRT
        and xclBinKernelID = "''0x101''" and xclBinKernelName = "''kernel''"
        and xclBinInstanceName = "''instance''" and amdAIEInstallDir = "''/install''"
        and InputXCLBin = None and ukernel = None]
  have a: "fst (aie2xclbin ?w None False ''/out/module.xclbin'' ''/tmp'' True
     False None ''AIE2'' ''npu1'' ''/peano'' XRT ''0x101'' ''kernel'' ''instance'' ''/install'' None
     None [] peanoHost) = Inl ToolchainNotFound
     \<and> trace (snd (aie2xclbin ?w None False ''/out/module.xclbin'' ''/tmp'' True
     False None ''AIE2'' ''npu1'' ''/peano'' XRT ''0x101'' ''kernel'' ''instance'' ''/install'' None
     None [] peanoHost)) = trace peanoHost"
    using chess unres ir by simp
  have s2: "fst (generateUnifiedObject ?w (path_append ''/tmp'' ''input.o'') False False ''/tmp'' None
                ''AIE2'' ''/peano'' ''npu1'' [] peanoHost) = Inr ()"
    by (simp add: generateUnifiedObject_def andThen_def fail_def exampleWorld_def Let_def
        dumpStrToDisk_def makePeanoOptArgs_def runTool_def runsFine_def
        peanoHost_def filesAt_def fs_exists_def path_append_def pjoin_def is_absolute_def)
  note peano = aie2xclbin_unresolved_toolchain [OF s1 surjective_pairing,
      where useChess = False and vitisDir = None and npuVersion = "''npu1''"
        and e = ToolchainNotFound and tempDir = "''/tmp''" and verbose = False
        and targetArch = "''AIE2''" and peanoDir = "''/peano''" and additionalPeanoOptFlags = "[]"
        and emitCtrlPkt = False and artifactPath = "''/out/module.xclbin''" and deviceHal = XRT
        and xclBinKernelID = "''0x101''" and xclBinKernelName = "''kernel''"
        and xclBinInstanceName = "''instance''" and amdAIEInstallDir = "''/install''"
        and InputXCLBin = None and ukernel = "Some ''mm''"]
  have b: "fst (aie2xclbin ?w None False ''/out/module.xclbin'' ''/tmp''
          False False None ''AIE2'' ''npu1'' ''/peano'' XRT ''0x101'' ''kernel'' ''instance''
          ''/install'' None (Some ''mm'') [] peanoHost) = Inl ToolchainNotFound
     \<and> length (trace (snd (aie2xclbin ?w None False
          ''/out/module.xclbin'' ''/tmp'' False False None ''AIE2'' ''npu1'' ''/peano'' XRT ''0x101''
          ''kernel'' ''instance'' ''/install'' None (Some ''mm'') [] peanoHost)))
         = length (trace peanoHost) + 2"
    using peano unres s2 core by (auto simp: wantsUkernel_def)
  have t: "trace peanoHost = []" by (simp add: peanoHost_def)
  show ?thesis using a b t chess_run by simp
qed

end
